theory Spec2Isabelle
  imports Complex_Main
begin

section \<open>Data model of \<open>rotkehlchen/externalapis/cryptocompare.py\<close>\<close>

text \<open>
  An \<open>Asset\<close> is represented by its identifier, a \<open>Timestamp\<close> is a Python integer and
  a \<open>Price\<close> is an \<open>FVal\<close>.

  Modelled from the spec: \<open>FVal\<close> (\<open>rotkehlchen/fval.py\<close>) is not part of the sources at
  hand. The specification says that all prices and multiplicative combinations use
  arbitrary-precision decimal arithmetic, never floating point, so an \<open>FVal\<close> is an exact
  rational here.
\<close>

type_synonym asset = string
type_synonym timestamp = int
type_synonym price = rat

text \<open>
  Parsed JSON, as \<open>rlk_jsonloads_dict\<close> hands it to the code. A dictionary is an
  association list with distinct keys, in document order. A number or a numeric string
  that \<open>FVal\<close> accepts is \<open>JInt\<close> or \<open>JNum\<close> of the value it denotes; \<open>JStr\<close> is any
  other string.
\<close>

datatype json =
    JNull
  | JBool bool
  | JInt int
  | JNum rat
  | JStr string
  | JList "json list"
  | JDict "(string \<times> json) list"

datatype remote_problem =
    ConnectionFailed
  | InvalidJSON
  | QueryFailed "json option"
  | HourlyGap nat nat asset asset int
  | PreviousDateNotFound
  | EndDatesDontMatch

datatype error =
    RemoteError remote_problem
  | UnsupportedAsset asset
  | PriceQueryUnsupportedAsset asset
  | NoPriceForGivenTimestamp asset asset timestamp
  | KeyError string
  | IndexError
  | TypeError
  | ValueError
  | ZeroDivisionError
  | AssertionError

definition ebind :: "error + 'a \<Rightarrow> ('a \<Rightarrow> error + 'b) \<Rightarrow> error + 'b" where
  "ebind m f = (case m of Inl e \<Rightarrow> Inl e | Inr x \<Rightarrow> f x)"

text \<open>\<open>d[k]\<close> on a parsed JSON value.\<close>

definition getitem :: "json \<Rightarrow> string \<Rightarrow> error + json" where
  "getitem d k =
     (case d of
        JDict kvs \<Rightarrow> (case map_of kvs k of Some v \<Rightarrow> Inr v | None \<Rightarrow> Inl (KeyError k))
      | _ \<Rightarrow> Inl TypeError)"

text \<open>
  A value used as a \<open>Timestamp\<close>. The source's annotations make timestamps integers; the
  model raises \<open>TypeError\<close> for anything else.
\<close>

definition as_int :: "json \<Rightarrow> error + int" where
  "as_int v = (case v of JInt i \<Rightarrow> Inr i | _ \<Rightarrow> Inl TypeError)"

definition as_list :: "json \<Rightarrow> error + json list" where
  "as_list v = (case v of JList xs \<Rightarrow> Inr xs | _ \<Rightarrow> Inl TypeError)"

text \<open>\<open>FVal(v)\<close>: the decimal a JSON number or numeric string denotes.\<close>

definition FVal :: "json \<Rightarrow> error + rat" where
  "FVal v =
     (case v of JInt i \<Rightarrow> Inr (of_int i) | JNum r \<Rightarrow> Inr r | _ \<Rightarrow> Inl ValueError)"

text \<open>\<open>xs[i]\<close> with Python's negative indices.\<close>

definition py_nth :: "'a list \<Rightarrow> int \<Rightarrow> error + 'a" where
  "py_nth xs i =
     (if 0 \<le> i \<and> i < int (length xs) then Inr (xs ! nat i)
      else if i < 0 \<and> - int (length xs) \<le> i then Inr (xs ! nat (int (length xs) + i))
      else Inl IndexError)"

text \<open>A list comprehension whose body may raise: the first failure ends it.\<close>

fun map_e :: "('a \<Rightarrow> error + 'b) \<Rightarrow> 'a list \<Rightarrow> error + 'b list" where
  "map_e f [] = Inr []"
| "map_e f (x # xs) =
     ebind (f x) (\<lambda>y. ebind (map_e f xs) (\<lambda>ys. Inr (y # ys)))"

record PriceHistoryEntry =
  time :: timestamp
  low :: price
  high :: price

record PriceHistoryData =
  data :: "PriceHistoryEntry list"
  start_time :: timestamp
  end_time :: timestamp

record HistoHourAssetData =
  timestamp :: timestamp
  usd_price :: price

definition RATE_LIMIT_MSG :: string where
  "RATE_LIMIT_MSG = ''You are over your rate limit please upgrade your account!''"

definition CRYPTOCOMPARE_QUERY_RETRY_TIMES :: int where
  "CRYPTOCOMPARE_QUERY_RETRY_TIMES = 10"

section \<open>The hourly sanity check\<close>

text \<open>
  \<open>pairwise\<close> (here \<open>pairwise_py\<close>, \<open>pairwise\<close> being a constant of HOL):
  \<open>zip(a, a)\<close> over one iterator, \<open>s -> (s0, s1), (s2, s3), (s4, s5), ...\<close>; a trailing
  odd element is consumed and dropped.
\<close>

fun pairwise_py :: "'a list \<Rightarrow> ('a \<times> 'a) list" where
  "pairwise_py (x # y # xs) = (x, y) # pairwise_py xs"
| "pairwise_py _ = []"

text \<open>The \<open>for\<close> loop of \<open>_check_hourly_data_sanity\<close>, with its running \<open>index\<close>.\<close>

fun sanity_loop :: "nat \<Rightarrow> (json \<times> json) list \<Rightarrow> asset \<Rightarrow> asset \<Rightarrow> error + unit" where
  "sanity_loop index [] from_asset to_asset = Inr ()"
| "sanity_loop index ((n1, n2) # ps) from_asset to_asset =
     ebind (ebind (getitem n2 ''time'') as_int) (\<lambda>t2.
     ebind (ebind (getitem n1 ''time'') as_int) (\<lambda>t1.
       let diff = t2 - t1 in
       if diff \<noteq> 3600
       then Inl (RemoteError (HourlyGap index (index + 1) from_asset to_asset diff))
       else sanity_loop (index + 2) ps from_asset to_asset))"

definition check_hourly_data_sanity :: "json list \<Rightarrow> asset \<Rightarrow> asset \<Rightarrow> error + unit" where
  "check_hourly_data_sanity dat from_asset to_asset =
     sanity_loop 0 (pairwise_py dat) from_asset to_asset"

text \<open>An hourly entry that carries only the fields the check reads.\<close>

definition hour_entry :: "timestamp \<Rightarrow> json" where
  "hour_entry t = JDict [(''time'', JInt t), (''high'', JInt 2), (''low'', JInt 1)]"

section \<open>The state of a \<open>Cryptocompare\<close> instance and its surroundings\<close>

text \<open>
  The query string of a request: the endpoint with its parameters, and the API key that
  \<open>_api_query\<close> appends when one is configured.
\<close>

datatype path =
    HistohourPath string string int timestamp
  | PricePath string string
  | PricehistoricalPath string string timestamp bool
  | CoinlistPath

text \<open>
  What \<open>session.get\<close> followed by \<open>rlk_jsonloads_dict\<close> yields: a connection error, a
  body that is not JSON, or the parsed dictionary.
\<close>

datatype response = ConnectionError | NotJSON | Body "(string \<times> json) list"

text \<open>
  What reading a cache file yields: \<open>OSError\<close> when it cannot be opened (no entry in
  \<open>files\<close>), \<open>JSONDecodeError\<close> for a malformed one, or the document.
\<close>

datatype file_content = Malformed | Document json

text \<open>
  Everything the code mutates or leaves a trace in: the number of requests sent so far,
  the arguments of \<open>gevent.sleep\<close> in order, the two dictionaries of the instance, and the
  files of the data directory.
\<close>

record world =
  requests :: nat
  sleeps :: "rat list"
  price_history :: "string \<rightharpoonup> PriceHistoryData"
  price_history_file :: "string \<rightharpoonup> string"
  files :: "string \<rightharpoonup> file_content"

text \<open>
  Everything the code reads from outside this file: the remote server (its answer to
  the \<open>n\<close>-th request), the API key (\<open>None\<close> when \<open>_get_api_key\<close> returns nothing
  to append), the clock (\<open>ts_now\<close>), the methods
  \<open>to_cryptocompare\<close> and \<open>is_fiat\<close> of \<open>Asset\<close> (\<open>None\<close>: \<open>UnsupportedAsset\<close> is
  raised), the data directory, and \<open>PriceHistorian().query_historical_price\<close>.
\<close>

record env =
  remote :: "nat \<Rightarrow> path \<times> string option \<Rightarrow> response"
  api_key :: "string option"
  ts_now :: timestamp
  to_cryptocompare :: "asset \<Rightarrow> string option"
  is_fiat :: "asset \<Rightarrow> bool"
  data_directory :: string
  historian :: "asset \<Rightarrow> asset \<Rightarrow> timestamp \<Rightarrow> world \<Rightarrow> (error + price) \<times> world"

definition sbind ::
  "(error + 'a) \<times> world \<Rightarrow> ('a \<Rightarrow> world \<Rightarrow> (error + 'b) \<times> world) \<Rightarrow> (error + 'b) \<times> world" where
  "sbind m f = (case m of (Inl e, w) \<Rightarrow> (Inl e, w) | (Inr x, w) \<Rightarrow> f x w)"

section \<open>The rate-limited remote query\<close>

text \<open>
  The \<open>while tries >= 0\<close> loop of \<open>_api_query\<close>. \<open>backoff_seconds = 20 / tries\<close> is a
  Python float; the model keeps the exact quotient.
\<close>

function api_query_loop ::
  "env \<Rightarrow> path \<times> string option \<Rightarrow> int \<Rightarrow> world \<Rightarrow> (error + json) \<times> world" where
  "api_query_loop e querystr tries w =
     (if tries \<ge> 0 then
        (case remote e (requests w) querystr of
           ConnectionError \<Rightarrow>
             (Inl (RemoteError ConnectionFailed), w\<lparr>requests := requests w + 1\<rparr>)
         | NotJSON \<Rightarrow>
             (Inl (RemoteError InvalidJSON), w\<lparr>requests := requests w + 1\<rparr>)
         | Body json_ret \<Rightarrow>
             if map_of json_ret ''Message'' = Some (JStr RATE_LIMIT_MSG) \<and> tries \<ge> 1
             then api_query_loop e querystr (tries - 1)
                    (w\<lparr>requests := requests w + 1,
                       sleeps := sleeps w @ [20 / of_int tries]\<rparr>)
             else if (case map_of json_ret ''Response'' of
                        None \<Rightarrow> JStr ''Success'' | Some v \<Rightarrow> v) \<noteq> JStr ''Success''
             then (Inl (RemoteError (QueryFailed (map_of json_ret ''Message''))),
                   w\<lparr>requests := requests w + 1\<rparr>)
             else (Inr (case map_of json_ret ''Data'' of
                          Some d \<Rightarrow> d | None \<Rightarrow> JDict json_ret),
                   w\<lparr>requests := requests w + 1\<rparr>))
      else (Inl AssertionError, w))"
  by pat_completeness auto
termination
  by (relation "measure (\<lambda>(e, querystr, tries, w). nat tries)") auto

declare api_query_loop.simps [simp del]

definition api_query :: "env \<Rightarrow> path \<Rightarrow> world \<Rightarrow> (error + json) \<times> world" where
  "api_query e p w =
     api_query_loop e (p, api_key e) CRYPTOCOMPARE_QUERY_RETRY_TIMES w"

text \<open>A response that carries the rate-limit message.\<close>

definition rate_limited :: "response \<Rightarrow> bool" where
  "rate_limited r =
     (case r of Body b \<Rightarrow> map_of b ''Message'' = Some (JStr RATE_LIMIT_MSG) | _ \<Rightarrow> False)"

text \<open>What \<open>_api_query\<close> makes of a response once it no longer retries.\<close>

definition final_answer :: "response \<Rightarrow> error + json" where
  "final_answer r =
     (case r of
        ConnectionError \<Rightarrow> Inl (RemoteError ConnectionFailed)
      | NotJSON \<Rightarrow> Inl (RemoteError InvalidJSON)
      | Body b \<Rightarrow>
          if (case map_of b ''Response'' of None \<Rightarrow> JStr ''Success'' | Some v \<Rightarrow> v)
               \<noteq> JStr ''Success''
          then Inl (RemoteError (QueryFailed (map_of b ''Message'')))
          else Inr (case map_of b ''Data'' of Some d \<Rightarrow> d | None \<Rightarrow> JDict b))"

text \<open>A fresh instance: nothing requested, nothing cached.\<close>

definition fresh :: world where
  "fresh = \<lparr>requests = 0, sleeps = [], price_history = Map.empty,
            price_history_file = Map.empty, files = Map.empty\<rparr>"

text \<open>
  Surroundings for concrete runs: a server given by its answer to the \<open>n\<close>-th request,
  the clock at \<open>now\<close>, no API key, every asset known to cryptocompare under its own
  identifier, EUR and USD the fiat currencies, and a price historian that finds nothing.
\<close>

definition serving :: "(nat \<Rightarrow> path \<Rightarrow> response) \<Rightarrow> timestamp \<Rightarrow> env" where
  "serving answer now =
     \<lparr>remote = (\<lambda>n q. answer n (fst q)), api_key = None, ts_now = now,
      to_cryptocompare = Some, is_fiat = (\<lambda>a. a = ''EUR'' \<or> a = ''USD''),
      data_directory = ''data'',
      historian = (\<lambda>f t ts w. (Inl (NoPriceForGivenTimestamp f t ts), w))\<rparr>"

text \<open>A server that answers every request with the rate-limit error.\<close>

definition always_limited :: env where
  "always_limited =
     serving (\<lambda>n p. Body [(''Response'', JStr ''Error''),
                            (''Message'', JStr RATE_LIMIT_MSG)]) 0"

section \<open>The special cases\<close>

text \<open>
  The asset constants of \<open>rotkehlchen/constants/assets.py\<close>, each the asset of that
  identifier.
\<close>

definition A_BTC :: asset where "A_BTC = ''BTC''"
definition A_COMP :: asset where "A_COMP = ''COMP''"
definition A_DAI :: asset where "A_DAI = ''DAI''"
definition A_USD :: asset where "A_USD = ''USD''"
definition A_USDT :: asset where "A_USDT = ''USDT''"
definition A_WETH :: asset where "A_WETH = ''WETH''"

definition CRYPTOCOMPARE_SPECIAL_CASES_MAPPING :: "(asset \<times> asset) list" where
  "CRYPTOCOMPARE_SPECIAL_CASES_MAPPING =
    [(''TLN'', A_WETH), (''BLY'', A_USDT), (''cDAI'', A_DAI), (''cCOMP'', A_COMP),
     (''cBAT'', ''BAT''), (''cREP'', ''REP''), (''cSAI'', ''SAI''), (''cUSDC'', ''USDC''),
     (''cUSDT'', A_USDT), (''cWBTC'', ''WBTC''), (''cUNI'', ''UNI''), (''cZRX'', ''ZRX''),
     (''ADADOWN'', A_USDT), (''ADAUP'', A_USDT), (''BNBDOWN'', A_USDT),
     (''BNBUP'', A_USDT), (''BTCDOWN'', A_USDT), (''BTCUP'', A_USDT),
     (''ETHDOWN'', A_USDT), (''ETHUP'', A_USDT), (''EOSDOWN'', A_USDT),
     (''EOSUP'', A_USDT), (''DOTDOWN'', A_USDT), (''DOTUP'', A_USDT),
     (''LTCDOWN'', A_USDT), (''LTCUP'', A_USDT), (''TRXDOWN'', A_USDT),
     (''TRXUP'', A_USDT), (''XRPDOWN'', A_USDT), (''XRPUP'', A_USDT), (''DEXT'', A_USDT),
     (''DOS'', A_USDT), (''GEEQ'', A_USDT), (''LINKDOWN'', A_USDT), (''LINKUP'', A_USDT),
     (''XTZDOWN'', A_USDT), (''XTZUP'', A_USDT), (''STAKE'', A_USDT), (''MCB'', A_USDT),
     (''TRB'', A_USDT), (''YFI'', A_USDT), (''YAM'', A_USDT), (''DEC-2'', A_USDT),
     (''ORN'', A_USDT), (''PERX'', A_USDT), (''PRQ'', A_USDT), (''RING'', A_USDT),
     (''SBREE'', A_USDT), (''YFII'', A_USDT), (''BZRX'', A_USDT), (''CREAM'', A_USDT),
     (''ADEL'', A_USDT), (''ANK'', A_USDT), (''CORN'', A_USDT), (''SAL'', A_USDT),
     (''CRT'', A_USDT), (''FSW'', A_USDT), (''JFI'', A_USDT), (''PEARL'', A_USDT),
     (''TAI'', A_USDT), (''YFL'', A_USDT), (''TRUMPWIN'', A_USDT), (''TRUMPLOSE'', A_USDT),
     (''KLV'', A_USDT), (''KRT'', ''KRW''), (''RVC'', A_USDT), (''SDT'', A_USDT),
     (''CHI'', A_USDT), (''BAKE'', ''BNB''), (''BURGER'', ''BNB''), (''CAKE'', ''BNB''),
     (''BREE'', A_USDT), (''GHST'', A_USDT), (''MEXP'', A_USDT), (''POLS'', A_USDT),
     (''RARI'', A_USDT), (''VALUE'', A_USDT), (''$BASED'', A_WETH), (''DPI'', A_WETH),
     (''JRT'', A_USDT), (''PICKLE'', A_USDT), (''FILDOWN'', A_USDT), (''FILUP'', A_USDT),
     (''YFIDOWN'', A_USDT), (''YFIUP'', A_USDT), (''BOT'', A_USDT)]"

definition CRYPTOCOMPARE_SPECIAL_CASES :: "asset list" where
  "CRYPTOCOMPARE_SPECIAL_CASES = map fst CRYPTOCOMPARE_SPECIAL_CASES_MAPPING"

definition CRYPTOCOMPARE_SPECIAL_HISTOHOUR_CASES :: "(asset \<times> HistoHourAssetData) list" where
  "CRYPTOCOMPARE_SPECIAL_HISTOHOUR_CASES =
     [(A_COMP, \<lparr>timestamp = 1592632800, usd_price = 20293 / 100\<rparr>)]"

section \<open>The two-hop synthesizer and the three endpoints\<close>

text \<open>
  Where the code applies an operation to a JSON value of a type that has no such
  operation, the model raises \<open>TypeError\<close>.

  \<open>_multiply_str_nums\<close>: \<open>str(FVal(a) * FVal(b))\<close>, the numeric string being
  represented by its value.
\<close>

definition multiply_str_nums :: "json \<Rightarrow> json \<Rightarrow> error + json" where
  "multiply_str_nums a b =
     ebind (FVal a) (\<lambda>x. ebind (FVal b) (\<lambda>y. Inr (JNum (x * y))))"

text \<open>\<open>d.get(k, default)\<close> on a parsed JSON value.\<close>

definition get_default :: "json \<Rightarrow> string \<Rightarrow> json \<Rightarrow> error + json" where
  "get_default d k dflt =
     (case d of
        JDict kvs \<Rightarrow> (case map_of kvs k of Some v \<Rightarrow> Inr v | None \<Rightarrow> Inr dflt)
      | _ \<Rightarrow> Inl TypeError)"

text \<open>\<open>result1 * result2\<close> on two prices.\<close>

definition price_times :: "json \<Rightarrow> json \<Rightarrow> error + json" where
  "price_times a b =
     (case (a, b) of (JNum x, JNum y) \<Rightarrow> Inr (JNum (x * y)) | _ \<Rightarrow> Inl TypeError)"

text \<open>
  The loop \<open>for idx, entry in enumerate(result1)\<close> of \<open>_special_case_handling\<close>; the
  subscripts are evaluated in the order of the dictionary display.
\<close>

fun multiply_entries :: "nat \<Rightarrow> json list \<Rightarrow> json list \<Rightarrow> error + json list" where
  "multiply_entries idx [] result2 = Inr []"
| "multiply_entries idx (entry # rest) result2 =
     ebind (py_nth result2 (int idx)) (\<lambda>entry2.
     ebind (getitem entry ''time'') (\<lambda>t.
     ebind (ebind (getitem entry ''high'') (\<lambda>a.
            ebind (getitem entry2 ''high'') (\<lambda>b. multiply_str_nums a b))) (\<lambda>hi.
     ebind (ebind (getitem entry ''low'') (\<lambda>a.
            ebind (getitem entry2 ''low'') (\<lambda>b. multiply_str_nums a b))) (\<lambda>lo.
     ebind (ebind (getitem entry ''open'') (\<lambda>a.
            ebind (getitem entry2 ''open'') (\<lambda>b. multiply_str_nums a b))) (\<lambda>op.
     ebind (getitem entry ''volumefrom'') (\<lambda>vf.
     ebind (getitem entry ''volumeto'') (\<lambda>vt.
     ebind (ebind (getitem entry ''close'') (\<lambda>a.
            ebind (getitem entry2 ''close'') (\<lambda>b. multiply_str_nums a b))) (\<lambda>cl.
     ebind (getitem entry ''conversionType'') (\<lambda>ct.
     ebind (getitem entry ''conversionSymbol'') (\<lambda>cs.
     ebind (multiply_entries (idx + 1) rest result2) (\<lambda>dat.
       Inr (JDict [(''time'', t), (''high'', hi), (''low'', lo), (''open'', op),
                   (''volumefrom'', vf), (''volumeto'', vt), (''close'', cl),
                   (''conversionType'', ct), (''conversionSymbol'', cs)] # dat))))))))))))"

text \<open>
  What \<open>_special_case_handling\<close> does with the two legs' results, by \<open>method_name\<close>.
  The keyword arguments of the call travel with the method's name.
\<close>

datatype method_call =
    Histohour int timestamp
  | PriceNow
  | Pricehistorical timestamp

definition combine :: "method_call \<Rightarrow> asset \<Rightarrow> asset \<Rightarrow> json \<Rightarrow> json \<Rightarrow> error + json" where
  "combine m intermediate_asset to_asset result1 result2 =
     (case m of
        Histohour limit to_timestamp \<Rightarrow>
          ebind (getitem result1 ''Aggregated'') (\<lambda>agg.
          ebind (getitem result1 ''TimeFrom'') (\<lambda>tf.
          ebind (getitem result1 ''TimeTo'') (\<lambda>tt.
          ebind (ebind (getitem result1 ''Data'') as_list) (\<lambda>data1.
          ebind (ebind (getitem result2 ''Data'') as_list) (\<lambda>data2.
          ebind (multiply_entries 0 data1 data2) (\<lambda>dat.
            Inr (JDict [(''Aggregated'', agg), (''TimeFrom'', tf), (''TimeTo'', tt),
                        (''Data'', JList dat)])))))))
      | PriceNow \<Rightarrow>
          ebind (get_default result1 intermediate_asset (JNum 0)) (\<lambda>a.
          ebind (get_default result2 to_asset (JNum 0)) (\<lambda>b.
          ebind (multiply_str_nums a b) (\<lambda>p. Inr (JDict [(to_asset, p)]))))
      | Pricehistorical ts \<Rightarrow> price_times result1 result2)"

text \<open>
  \<open>_special_case_handling\<close> and the three endpoints it calls back with
  \<open>handling_special_case=True\<close>.
\<close>

function
  special_case_handling ::
    "env \<Rightarrow> method_call \<Rightarrow> asset \<Rightarrow> asset \<Rightarrow> world \<Rightarrow> (error + json) \<times> world"
and query_endpoint_histohour ::
    "env \<Rightarrow> asset \<Rightarrow> asset \<Rightarrow> int \<Rightarrow> timestamp \<Rightarrow> bool \<Rightarrow> world
       \<Rightarrow> (error + json) \<times> world"
and query_endpoint_price ::
    "env \<Rightarrow> asset \<Rightarrow> asset \<Rightarrow> bool \<Rightarrow> world \<Rightarrow> (error + json) \<times> world"
and query_endpoint_pricehistorical ::
    "env \<Rightarrow> asset \<Rightarrow> asset \<Rightarrow> timestamp \<Rightarrow> bool \<Rightarrow> world
       \<Rightarrow> (error + json) \<times> world"
where
  "special_case_handling e m from_asset to_asset w =
     (case map_of CRYPTOCOMPARE_SPECIAL_CASES_MAPPING from_asset of
        None \<Rightarrow> (Inl (KeyError from_asset), w)
      | Some intermediate_asset \<Rightarrow>
          (case (case m of
                   Histohour limit to_timestamp \<Rightarrow>
                     query_endpoint_histohour e from_asset intermediate_asset
                       limit to_timestamp True w
                 | PriceNow \<Rightarrow>
                     query_endpoint_price e from_asset intermediate_asset True w
                 | Pricehistorical ts \<Rightarrow>
                     query_endpoint_pricehistorical e from_asset intermediate_asset
                       ts True w) of
             (Inl err, w1) \<Rightarrow> (Inl err, w1)
           | (Inr result1, w1) \<Rightarrow>
               (case (case m of
                        Histohour limit to_timestamp \<Rightarrow>
                          query_endpoint_histohour e intermediate_asset to_asset
                            limit to_timestamp True w1
                      | PriceNow \<Rightarrow>
                          query_endpoint_price e intermediate_asset to_asset True w1
                      | Pricehistorical ts \<Rightarrow>
                          query_endpoint_pricehistorical e intermediate_asset to_asset
                            ts True w1) of
                  (Inl err, w2) \<Rightarrow> (Inl err, w2)
                | (Inr result2, w2) \<Rightarrow>
                    (combine m intermediate_asset to_asset result1 result2, w2))))"
| "query_endpoint_histohour e from_asset to_asset limit to_timestamp handling_special_case w =
     (if (from_asset \<in> set CRYPTOCOMPARE_SPECIAL_CASES
          \<or> to_asset \<in> set CRYPTOCOMPARE_SPECIAL_CASES) \<and> \<not> handling_special_case
      then special_case_handling e (Histohour limit to_timestamp) from_asset to_asset w
      else
        (case to_cryptocompare e from_asset of
           None \<Rightarrow> (Inl (PriceQueryUnsupportedAsset from_asset), w)
         | Some cc_from_asset_symbol \<Rightarrow>
             (case to_cryptocompare e to_asset of
                None \<Rightarrow> (Inl (PriceQueryUnsupportedAsset to_asset), w)
              | Some cc_to_asset_symbol \<Rightarrow>
                  api_query e
                    (HistohourPath cc_from_asset_symbol cc_to_asset_symbol limit to_timestamp)
                    w)))"
| "query_endpoint_price e from_asset to_asset handling_special_case w =
     (if (from_asset \<in> set CRYPTOCOMPARE_SPECIAL_CASES
          \<or> to_asset \<in> set CRYPTOCOMPARE_SPECIAL_CASES) \<and> \<not> handling_special_case
      then special_case_handling e PriceNow from_asset to_asset w
      else
        (case to_cryptocompare e from_asset of
           None \<Rightarrow> (Inl (PriceQueryUnsupportedAsset from_asset), w)
         | Some cc_from_asset_symbol \<Rightarrow>
             (case to_cryptocompare e to_asset of
                None \<Rightarrow> (Inl (PriceQueryUnsupportedAsset to_asset), w)
              | Some cc_to_asset_symbol \<Rightarrow>
                  api_query e (PricePath cc_from_asset_symbol cc_to_asset_symbol) w)))"
| "query_endpoint_pricehistorical e from_asset to_asset ts handling_special_case w =
     (if (from_asset \<in> set CRYPTOCOMPARE_SPECIAL_CASES
          \<or> to_asset \<in> set CRYPTOCOMPARE_SPECIAL_CASES) \<and> \<not> handling_special_case
      then special_case_handling e (Pricehistorical ts) from_asset to_asset w
      else
        (case to_cryptocompare e from_asset of
           None \<Rightarrow> (Inl (PriceQueryUnsupportedAsset from_asset), w)
         | Some cc_from_asset_symbol \<Rightarrow>
             (case to_cryptocompare e to_asset of
                None \<Rightarrow> (Inl (PriceQueryUnsupportedAsset to_asset), w)
              | Some cc_to_asset_symbol \<Rightarrow>
                  (case api_query e
                          (PricehistoricalPath cc_from_asset_symbol cc_to_asset_symbol
                             ts (to_asset = ''BTC'')) w of
                     (Inl err, w1) \<Rightarrow> (Inl err, w1)
                   | (Inr result, w1) \<Rightarrow>
                       (ebind (getitem result cc_from_asset_symbol) (\<lambda>r.
                        ebind (getitem r cc_to_asset_symbol) (\<lambda>v.
                        ebind (FVal v) (\<lambda>p. Inr (JNum p)))), w1)))))"
  by pat_completeness auto
termination
  by (relation "measure (\<lambda>x. case x of
         Inl (Inl c) \<Rightarrow> 1
       | Inl (Inr (e, f, t, l, ts, handling, w)) \<Rightarrow> (if handling then 0 else 2)
       | Inr (Inl (e, f, t, handling, w)) \<Rightarrow> (if handling then 0 else 2)
       | Inr (Inr (e, f, t, ts, handling, w)) \<Rightarrow> (if handling then 0 else (2::nat)))")
     auto

declare special_case_handling.simps [simp del]
declare query_endpoint_histohour.simps [simp del]
declare query_endpoint_price.simps [simp del]
declare query_endpoint_pricehistorical.simps [simp del]




text \<open>Hourly entries and responses for concrete runs.\<close>

definition full_entry :: "timestamp \<Rightarrow> rat \<Rightarrow> rat \<Rightarrow> json" where
  "full_entry t lo hi =
     JDict [(''time'', JInt t), (''high'', JNum hi), (''low'', JNum lo),
            (''open'', JNum lo), (''volumefrom'', JNum 10), (''volumeto'', JNum 20),
            (''close'', JNum hi), (''conversionType'', JStr ''direct''),
            (''conversionSymbol'', JStr '''')]"

definition histohour_body :: "timestamp \<Rightarrow> timestamp \<Rightarrow> json list \<Rightarrow> response" where
  "histohour_body time_from time_to entries =
     Body [(''Response'', JStr ''Success''),
           (''Data'', JDict [(''Aggregated'', JBool False), (''TimeFrom'', JInt time_from),
                             (''TimeTo'', JInt time_to), (''Data'', JList entries)])]"

text \<open>
  A server that quotes cDAI at 2 (hourly: low and open 1, high and close 2) and every
  other asset at 3 (hourly: 3 and 5), on all three endpoints.
\<close>

definition two_hop_answer :: "nat \<Rightarrow> path \<Rightarrow> response" where
  "two_hop_answer n p =
     (case p of
        HistohourPath f t limit to_ts \<Rightarrow>
          histohour_body 0 3600
            (if f = ''cDAI'' then [full_entry 0 1 2, full_entry 3600 1 2]
             else [full_entry 0 3 5, full_entry 3600 3 5])
      | PricePath f t \<Rightarrow> Body [(t, JNum (if f = ''cDAI'' then 2 else 3))]
      | PricehistoricalPath f t ts b \<Rightarrow>
          Body [(f, JDict [(t, JNum (if f = ''cDAI'' then 2 else 3))])]
      | CoinlistPath \<Rightarrow> NotJSON)"


section \<open>The time-range file cache and the hourly backfill\<close>

text \<open>The body of the comprehension of \<open>_dict_history_to_entries\<close>.\<close>

definition dict_history_to_entry :: "json \<Rightarrow> error + PriceHistoryEntry" where
  "dict_history_to_entry entry =
     ebind (ebind (getitem entry ''time'') as_int) (\<lambda>t.
     ebind (ebind (getitem entry ''low'') FVal) (\<lambda>lo.
     ebind (ebind (getitem entry ''high'') FVal) (\<lambda>hi.
       Inr \<lparr>time = t, low = lo, high = hi\<rparr>)))"

definition dict_history_to_entries :: "json list \<Rightarrow> error + PriceHistoryEntry list" where
  "dict_history_to_entries dat = map_e dict_history_to_entry dat"

definition dict_history_to_data :: "json \<Rightarrow> error + PriceHistoryData" where
  "dict_history_to_data d =
     ebind (ebind (ebind (getitem d ''data'') as_list) dict_history_to_entries) (\<lambda>entries.
     ebind (ebind (getitem d ''start_time'') as_int) (\<lambda>st.
     ebind (ebind (getitem d ''end_time'') as_int) (\<lambda>en.
       Inr \<lparr>data = entries, start_time = st, end_time = en\<rparr>)))"

text \<open>
  \<open>_got_cached_price\<close>. A file that cannot be opened or parsed is a miss; an error of
  \<open>_dict_history_to_data\<close> on a parsed document is not caught.
\<close>

definition got_cached_price :: "string \<Rightarrow> timestamp \<Rightarrow> world \<Rightarrow> (error + bool) \<times> world" where
  "got_cached_price cache_key ts w =
     (case price_history_file w cache_key of
        None \<Rightarrow> (Inr False, w)
      | Some file \<Rightarrow>
          (case price_history w cache_key of
             Some h \<Rightarrow> (Inr (start_time h \<le> ts \<and> end_time h > ts), w)
           | None \<Rightarrow>
               (case files w file of
                  None \<Rightarrow> (Inr False, w)
                | Some Malformed \<Rightarrow> (Inr False, w)
                | Some (Document d) \<Rightarrow>
                    (case dict_history_to_data d of
                       Inl err \<Rightarrow> (Inl err, w)
                     | Inr h \<Rightarrow>
                         (Inr (start_time h \<le> ts \<and> end_time h > ts),
                          w\<lparr>price_history := (price_history w)(cache_key \<mapsto> h)\<rparr>)))))"

text \<open>
  One pass through the body of the \<open>while True\<close> loop of \<open>get_historical_data\<close>, from
  the response of \<open>query_endpoint_histohour\<close> on: the new \<open>calculated_history\<close> and
  \<open>end_date\<close>. \<open>resp['Data']\<close> is read where the code reads it.
\<close>

definition add_page ::
  "timestamp \<Rightarrow> timestamp \<Rightarrow> timestamp \<Rightarrow> json list \<Rightarrow> json
     \<Rightarrow> error + json list \<times> timestamp" where
  "add_page now_ts pr_end_date end_date calculated_history resp =
     ebind (ebind (getitem resp ''TimeFrom'') as_int) (\<lambda>time_from.
     ebind
       (if pr_end_date \<noteq> time_from \<and> pr_end_date - time_from \<ge> 3600
        then
          ebind (ebind (getitem resp ''Data'') as_list) (\<lambda>d.
          ebind (py_nth d ((pr_end_date - time_from) div 3600)) (\<lambda>entry.
          ebind (ebind (getitem entry ''time'') as_int) (\<lambda>t.
            if t \<noteq> pr_end_date then Inl (RemoteError PreviousDateNotFound)
            else Inr (Some (drop (nat ((pr_end_date - time_from) div 3600)) d)))))
        else Inr None) (\<lambda>sliced.
     ebind
       (if end_date < now_ts
        then
          ebind (ebind (getitem resp ''TimeTo'') as_int) (\<lambda>time_to.
            if time_to \<noteq> end_date
            then (if time_to - end_date \<ge> 3600 then Inl (RemoteError EndDatesDontMatch)
                  else Inr time_to)
            else Inr end_date)
        else Inr end_date) (\<lambda>end_date'.
     ebind
       (if length calculated_history \<noteq> 0
        then
          ebind (py_nth calculated_history (- 1)) (\<lambda>last_entry.
          ebind (ebind (getitem last_entry ''time'') as_int) (\<lambda>t_last.
          ebind (case sliced of Some d \<Rightarrow> Inr d
                 | None \<Rightarrow> ebind (getitem resp ''Data'') as_list) (\<lambda>d.
          ebind (py_nth d 0) (\<lambda>first_entry.
          ebind (ebind (getitem first_entry ''time'') as_int) (\<lambda>t_first.
            Inr (if t_last = t_first then Some (drop 1 d) else sliced))))))
        else Inr sliced) (\<lambda>sliced'.
     ebind (case sliced' of Some d \<Rightarrow> Inr d
            | None \<Rightarrow> ebind (getitem resp ''Data'') as_list) (\<lambda>d.
       Inr (calculated_history @ d, end_date'))))))"

text \<open>
  The \<open>while True\<close> loop. Nothing bounds the number of passes (the server's \<open>TimeTo\<close>
  may move \<open>end_date\<close> back), so a run that never leaves the loop is \<open>None\<close>.
\<close>

partial_function (option) backfill_loop ::
  "env \<Rightarrow> asset \<Rightarrow> asset \<Rightarrow> timestamp \<Rightarrow> json list \<Rightarrow> timestamp \<Rightarrow> world
     \<Rightarrow> ((error + json list \<times> timestamp) \<times> world) option" where
  [code]: "backfill_loop e from_asset to_asset now_ts calculated_history end_date w =
     (case query_endpoint_histohour e from_asset to_asset 2000 (end_date + 2000 * 3600)
             False w of
        (Inl err, w1) \<Rightarrow> Some (Inl err, w1)
      | (Inr resp, w1) \<Rightarrow>
          (case add_page now_ts end_date (end_date + 2000 * 3600) calculated_history resp of
             Inl err \<Rightarrow> Some (Inl err, w1)
           | Inr (calculated_history', end_date') \<Rightarrow>
               if end_date' \<ge> now_ts then Some (Inr (calculated_history', end_date'), w1)
               else backfill_loop e from_asset to_asset now_ts calculated_history'
                      end_date' w1))"

text \<open>
  Modelled from the spec: \<open>write_history_data_in_file\<close> (\<open>rotkehlchen/utils/misc.py\<close>)
  and the JSON serialisation are not part of the sources at hand. The specification
  says the persisted cache file is a document containing the entries, \<open>start_time\<close>
  and \<open>end_time\<close>, in a format that round-trips exactly; the keys are the ones
  \<open>_dict_history_to_data\<close> reads back, and a file holds the document itself.
\<close>

definition write_history_data_in_file ::
  "json list \<Rightarrow> string \<Rightarrow> timestamp \<Rightarrow> timestamp \<Rightarrow> world \<Rightarrow> world" where
  "write_history_data_in_file dat filepath start_ts end_ts w =
     w\<lparr>files := (files w)(filepath \<mapsto>
          Document (JDict [(''start_time'', JInt start_ts), (''end_time'', JInt end_ts),
                           (''data'', JList dat)]))\<rparr>"

definition get_historical_data ::
  "env \<Rightarrow> asset \<Rightarrow> asset \<Rightarrow> timestamp \<Rightarrow> timestamp \<Rightarrow> world
     \<Rightarrow> ((error + PriceHistoryEntry list) \<times> world) option" where
  "get_historical_data e from_asset to_asset ts historical_data_start w =
     (let cache_key = from_asset @ ''_'' @ to_asset in
      case got_cached_price cache_key ts w of
        (Inl err, w0) \<Rightarrow> Some (Inl err, w0)
      | (Inr True, w0) \<Rightarrow>
          (case price_history w0 cache_key of
             Some h \<Rightarrow> Some (Inr (data h), w0)
           | None \<Rightarrow> Some (Inl (KeyError cache_key), w0))
      | (Inr False, w0) \<Rightarrow>
          (case backfill_loop e from_asset to_asset (ts_now e) []
                  (if historical_data_start \<le> ts then historical_data_start else ts) w0 of
             None \<Rightarrow> None
           | Some (Inl err, w1) \<Rightarrow> Some (Inl err, w1)
           | Some (Inr (calculated_history, end_date), w1) \<Rightarrow>
               (case check_hourly_data_sanity calculated_history from_asset to_asset of
                  Inl err \<Rightarrow> Some (Inl err, w1)
                | Inr u \<Rightarrow>
                    (let filename = data_directory e @ ''/price_history_'' @ cache_key
                                      @ ''.json'';
                         w2 = write_history_data_in_file calculated_history filename
                                historical_data_start (ts_now e) w1;
                         w3 = w2\<lparr>price_history_file :=
                                   (price_history_file w2)(cache_key \<mapsto> filename)\<rparr>
                     in case dict_history_to_data
                               (JDict [(''data'', JList calculated_history),
                                       (''start_time'', JInt historical_data_start),
                                       (''end_time'', JInt end_date)]) of
                          Inl err \<Rightarrow> Some (Inl err, w3)
                        | Inr h \<Rightarrow>
                            Some (Inr (data h),
                                  w3\<lparr>price_history :=
                                       (price_history w3)(cache_key \<mapsto> h)\<rparr>)))))"

section \<open>The nearest-timestamp resolver\<close>

text \<open>
  Modelled from the spec: the division of \<open>FVal\<close> is not part of the sources at hand.
  It is the exact quotient; dividing by zero raises (\<open>decimal\<close>'s \<open>DivisionByZero\<close>
  or, for 0/0, \<open>InvalidOperation\<close>: one error in the model).
\<close>

definition fval_div :: "rat \<Rightarrow> rat \<Rightarrow> error + rat" where
  "fval_div a b = (if b = 0 then Inl ZeroDivisionError else Inr (a / b))"

text \<open>\<open>d[k]\<close> on one of the module's tables.\<close>

definition table_item :: "(asset \<times> 'v) list \<Rightarrow> asset \<Rightarrow> error + 'v" where
  "table_item tab k = (case map_of tab k of Some v \<Rightarrow> Inr v | None \<Rightarrow> Inl (KeyError k))"

definition check_and_get_special_histohour_price ::
  "asset \<Rightarrow> asset \<Rightarrow> timestamp \<Rightarrow> error + price" where
  "check_and_get_special_histohour_price from_asset to_asset ts =
     (if (from_asset \<in> set (map fst CRYPTOCOMPARE_SPECIAL_HISTOHOUR_CASES)
            \<and> to_asset = A_USD)
         \<or> (from_asset = A_USD
            \<and> to_asset \<in> set (map fst CRYPTOCOMPARE_SPECIAL_HISTOHOUR_CASES))
      then
        ebind (if to_asset = A_USD
               then table_item CRYPTOCOMPARE_SPECIAL_HISTOHOUR_CASES from_asset
               else table_item CRYPTOCOMPARE_SPECIAL_HISTOHOUR_CASES to_asset) (\<lambda>asset_data.
          if ts \<le> timestamp asset_data
          then (if to_asset = A_USD then Inr (usd_price asset_data)
                else fval_div 1 (usd_price asset_data))
          else Inr 0)
      else Inr 0)"

text \<open>
  The search for the closest entry in \<open>query_historical_price\<close>: the index the price
  is read at, or \<open>None\<close> when the code gives the hourly data up (\<open>timestamp\<close> before the
  first entry, or \<open>index_in_bounds = False\<close>).

  Modelled from the spec: \<open>convert_to_int\<close> (\<open>rotkehlchen/utils/misc.py\<close>) is not part
  of the sources at hand; the specification gives the candidate index as
  \<open>floor((timestamp - series[0].time) / 3600)\<close>.
\<close>

definition closest_index :: "PriceHistoryEntry list \<Rightarrow> timestamp \<Rightarrow> error + int option" where
  "closest_index dat ts =
     ebind (py_nth dat 0) (\<lambda>first.
       if ts \<ge> time first then
         (let index0 = (ts - time first) div 3600;
              (index, index_in_bounds) =
                (if index0 > int (length dat) - 1
                 then (if index0 > int (length dat) then (index0 - 1, True)
                       else (index0, False))
                 else (index0, True))
          in if index_in_bounds then
               ebind (py_nth dat index) (\<lambda>entry.
                 if index + 1 \<le> int (length dat) - 1 then
                   ebind (py_nth dat (index + 1)) (\<lambda>entry_p1.
                     if \<bar>time entry_p1 - ts\<bar> < \<bar>time entry - ts\<bar>
                     then Inr (Some (index + 1)) else Inr (Some index))
                 else Inr (Some index))
             else Inr None)
       else Inr None)"

text \<open>
  The price the hourly data give: the midpoint of the chosen entry, or zero. Both
  \<open>high\<close> and \<open>low\<close> of a \<open>PriceHistoryEntry\<close> are \<open>FVal\<close>s, never \<open>None\<close>.
\<close>

definition hourly_data_price :: "PriceHistoryEntry list \<Rightarrow> timestamp \<Rightarrow> error + price" where
  "hourly_data_price dat ts =
     ebind (closest_index dat ts) (\<lambda>found.
       case found of
         None \<Rightarrow> Inr 0
       | Some index \<Rightarrow>
           ebind (py_nth dat index) (\<lambda>entry. Inr ((high entry + low entry) / 2)))"

text \<open>A price as one of the endpoints returns it.\<close>

definition as_price :: "json \<Rightarrow> error + price" where
  "as_price v = (case v of JNum p \<Rightarrow> Inr p | _ \<Rightarrow> Inl TypeError)"

text \<open>The alternatives tried when the hourly data give no price (\<open>if price == 0\<close>).\<close>

definition fallback_price ::
  "env \<Rightarrow> price \<Rightarrow> asset \<Rightarrow> asset \<Rightarrow> timestamp \<Rightarrow> world \<Rightarrow> (error + price) \<times> world" where
  "fallback_price e price from_asset to_asset ts w =
     (if price = 0 then
        (if from_asset \<noteq> ''BTC'' \<and> to_asset \<noteq> ''BTC'' then
           sbind (historian e from_asset A_BTC ts w) (\<lambda>asset_btc_price w1.
           sbind (historian e A_BTC to_asset ts w1) (\<lambda>btc_to_asset_price w2.
             (Inr (asset_btc_price * btc_to_asset_price), w2)))
         else
           sbind (query_endpoint_pricehistorical e from_asset to_asset ts False w) (\<lambda>r w1.
             (as_price r, w1)))
      else (Inr price, w))"

definition adjust_to_cryptocompare_price_incosistencies ::
  "env \<Rightarrow> price \<Rightarrow> asset \<Rightarrow> asset \<Rightarrow> timestamp \<Rightarrow> world \<Rightarrow> (error + price) \<times> world" where
  "adjust_to_cryptocompare_price_incosistencies e price from_asset to_asset ts w =
     sbind (historian e from_asset A_USD ts w) (\<lambda>from_asset_usd w1.
     sbind (historian e to_asset A_USD ts w1) (\<lambda>to_asset_usd w2.
       (ebind (fval_div from_asset_usd to_asset_usd) (\<lambda>usd_invert_conversion.
        ebind (fval_div \<bar>usd_invert_conversion - price\<bar> (max price usd_invert_conversion))
          (\<lambda>relative_difference.
          if relative_difference \<ge> 1 / 10 then Inr usd_invert_conversion
          else Inr price)), w2)))"

text \<open>The end of \<open>query_historical_price\<close>, from \<open>comparison_to_nonusd_fiat\<close> on.\<close>

definition finish_price ::
  "env \<Rightarrow> price \<Rightarrow> asset \<Rightarrow> asset \<Rightarrow> timestamp \<Rightarrow> world \<Rightarrow> (error + price) \<times> world" where
  "finish_price e price from_asset to_asset ts w =
     sbind (if (is_fiat e to_asset \<and> to_asset \<noteq> A_USD)
               \<or> (is_fiat e from_asset \<and> from_asset \<noteq> A_USD)
            then adjust_to_cryptocompare_price_incosistencies e price from_asset to_asset ts w
            else (Inr price, w)) (\<lambda>price' w1.
       if price' = 0 then (Inl (NoPriceForGivenTimestamp from_asset to_asset ts), w1)
       else (Inr price', w1))"

text \<open>\<open>query_historical_price\<close> after the table of special histohour cases.\<close>

definition series_price ::
  "env \<Rightarrow> asset \<Rightarrow> asset \<Rightarrow> timestamp \<Rightarrow> timestamp \<Rightarrow> world
     \<Rightarrow> ((error + price) \<times> world) option" where
  "series_price e from_asset to_asset ts historical_data_start w =
     (case get_historical_data e from_asset to_asset ts historical_data_start w of
        None \<Rightarrow> None
      | Some (Inl (UnsupportedAsset a), w1) \<Rightarrow> Some (Inl (PriceQueryUnsupportedAsset a), w1)
      | Some (Inl err, w1) \<Rightarrow> Some (Inl err, w1)
      | Some (Inr dat, w1) \<Rightarrow>
          (case hourly_data_price dat ts of
             Inl err \<Rightarrow> Some (Inl err, w1)
           | Inr price \<Rightarrow>
               Some (sbind (fallback_price e price from_asset to_asset ts w1) (\<lambda>price' w2.
                       finish_price e price' from_asset to_asset ts w2))))"

definition query_historical_price ::
  "env \<Rightarrow> asset \<Rightarrow> asset \<Rightarrow> timestamp \<Rightarrow> timestamp \<Rightarrow> world
     \<Rightarrow> ((error + price) \<times> world) option" where
  "query_historical_price e from_asset to_asset ts historical_data_start w =
     (case check_and_get_special_histohour_price from_asset to_asset ts of
        Inl err \<Rightarrow> Some (Inl err, w)
      | Inr price \<Rightarrow>
          if price \<noteq> 0 then Some (Inr price, w)
          else series_price e from_asset to_asset ts historical_data_start w)"

text \<open>A server with no hourly data at all.\<close>

definition empty_answer :: "nat \<Rightarrow> path \<Rightarrow> response" where
  "empty_answer n p = histohour_body 0 0 []"

text \<open>Three hourly entries from \<open>T\<close> on.\<close>

definition three_hours :: "timestamp \<Rightarrow> PriceHistoryEntry list" where
  "three_hours T =
     [\<lparr>time = T, low = 1, high = 3\<rparr>, \<lparr>time = T + 3600, low = 10, high = 30\<rparr>,
      \<lparr>time = T + 7200, low = 100, high = 300\<rparr>]"

text \<open>Surroundings whose price historian quotes every asset in USD from a table.\<close>

definition usd_quotes :: "(asset \<Rightarrow> rat) \<Rightarrow> env" where
  "usd_quotes usd =
     (serving empty_answer 0)\<lparr>historian := (\<lambda>f t ts w. (Inr (usd f), w))\<rparr>"

text \<open>
  The state a fresh instance is left in by the backfill of BTC to USD at the clock 5000,
  from the server without hourly data and from the server quoting every hour at 3 and 5.
\<close>

definition empty_backfill :: world where
  "empty_backfill =
     \<lparr>requests = 1, sleeps = [],
      price_history = [''BTC_USD'' \<mapsto> \<lparr>data = [], start_time = 0, end_time = 7200000\<rparr>],
      price_history_file = [''BTC_USD'' \<mapsto> ''data/price_history_BTC_USD.json''],
      files = [''data/price_history_BTC_USD.json'' \<mapsto>
                 Document (JDict [(''start_time'', JInt 0), (''end_time'', JInt 5000),
                                  (''data'', JList [])])]\<rparr>"

definition two_hours :: "PriceHistoryEntry list" where
  "two_hours = [\<lparr>time = 0, low = 3, high = 5\<rparr>, \<lparr>time = 3600, low = 3, high = 5\<rparr>]"

definition backfilled :: world where
  "backfilled =
     \<lparr>requests = 1, sleeps = [],
      price_history =
        [''BTC_USD'' \<mapsto> \<lparr>data = two_hours, start_time = 0, end_time = 7200000\<rparr>],
      price_history_file = [''BTC_USD'' \<mapsto> ''data/price_history_BTC_USD.json''],
      files = [''data/price_history_BTC_USD.json'' \<mapsto>
                 Document (JDict [(''start_time'', JInt 0), (''end_time'', JInt 5000),
                                  (''data'', JList [full_entry 0 3 5, full_entry 3600 3 5])])]\<rparr>"

text \<open>
  A server whose every answer carries the rate-limit message and no \<open>Response\<close> field.
\<close>

definition limited_without_response :: env where
  "limited_without_response =
     serving (\<lambda>n p. Body [(''Message'', JStr RATE_LIMIT_MSG)]) 0"

text \<open>
  An instance that holds a series for one pair in memory, and with it the three hourly
  entries from 1000 on, valid from 0 to 100000.
\<close>

definition cached :: "string \<Rightarrow> PriceHistoryData \<Rightarrow> world" where
  "cached cache_key h =
     fresh\<lparr>price_history := [cache_key \<mapsto> h],
           price_history_file := [cache_key \<mapsto> ''data/price_history_'' @ cache_key @ ''.json'']\<rparr>"

definition hours_cached :: "string \<Rightarrow> world" where
  "hours_cached cache_key =
     cached cache_key \<lparr>data = three_hours 1000, start_time = 0, end_time = 100000\<rparr>"

section \<open>Results about the hourly sanity check\<close>

lemma sanity_loop_ok_iff:
  "sanity_loop i (pairwise_py (map hour_entry ts)) f t = Inr () \<longleftrightarrow>
     list_all (\<lambda>(a, b). b - a = 3600) (pairwise_py ts)"
  by (induction ts arbitrary: i rule: pairwise_py.induct)
     (auto simp: ebind_def getitem_def as_int_def hour_entry_def Let_def)

text \<open>
  C1. The continuity check compares the entries at indices 0 and 1, 2 and 3, and so on,
  and never those at indices 1 and 2: the series with times 0, 3600, 7300, 10900 has a
  gap of 3700 seconds between its second and third entry and passes the check. A gap
  at a pair it does compare is reported with that pair's indices.
\<close>

theorem C1_sanity_check_misses_odd_pairs:
  "check_hourly_data_sanity (map hour_entry [0, 3600, 7300, 10900]) ''BTC'' ''USD'' = Inr ()
   \<and> check_hourly_data_sanity (map hour_entry [0, 3600, 7200, 10900]) ''BTC'' ''USD''
       = Inl (RemoteError (HourlyGap 2 3 ''BTC'' ''USD'' 3700))"
  by (simp add: check_hourly_data_sanity_def ebind_def getitem_def as_int_def hour_entry_def)

section \<open>Results about the rate-limited remote query\<close>

lemma api_query_loop_limited:
  assumes "\<And>n. rate_limited (remote e n q)"
  shows "api_query_loop e q (int k) w =
     (final_answer (remote e (requests w + k) q),
      w\<lparr>requests := requests w + k + 1,
        sleeps := sleeps w @ map (\<lambda>j. 20 / of_int j) (rev [1..int k])\<rparr>)"
proof (induction k arbitrary: w)
  case 0
  from assms[of "requests w"] show ?case
    by (subst api_query_loop.simps)
       (auto simp: rate_limited_def final_answer_def split: response.splits)
next
  case (Suc k)
  from assms[of "requests w"] obtain b where
    b: "remote e (requests w) q = Body b" "map_of b ''Message'' = Some (JStr RATE_LIMIT_MSG)"
    by (auto simp: rate_limited_def split: response.splits)
  have up: "[1..1 + int k] = [1..int k] @ [1 + int k]"
    by (simp add: upto_rec2)
  show ?case
    apply (subst api_query_loop.simps)
    apply (simp add: b Suc.IH up)
    done
qed

lemma backoff_values:
  "map (\<lambda>j. 20 / rat_of_int j) (rev [1..10]) =
     [2, 20 / 9, 5 / 2, 20 / 7, 10 / 3, 4, 5, 20 / 3, 10, 20]"
  by (simp add: upto_rec1)

lemma api_query_limited:
  assumes "\<And>n. rate_limited (remote e n (p, api_key e))"
  shows "api_query e p w =
     (final_answer (remote e (requests w + 10) (p, api_key e)),
      w\<lparr>requests := requests w + 11,
        sleeps := sleeps w @ [2, 20 / 9, 5 / 2, 20 / 7, 10 / 3, 4, 5, 20 / 3, 10, 20]\<rparr>)"
  unfolding api_query_def CRYPTOCOMPARE_QUERY_RETRY_TIMES_def
  using api_query_loop_limited[of e "(p, api_key e)" 10 w, OF assms]
  by (simp add: backoff_values)

lemma always_limited_limited: "rate_limited (remote always_limited n q)"
  by (simp add: always_limited_def serving_def rate_limited_def)

lemma limited_without_response_limited:
  "rate_limited (remote limited_without_response n q)"
  by (simp add: limited_without_response_def serving_def rate_limited_def)

text \<open>
  C2, as the code has it. When every response carries the rate-limit message,
  \<open>_api_query\<close> sends eleven requests, the first and ten retries; before the retry with
  \<open>tries\<close> attempts left it sleeps \<open>20 / tries\<close> seconds, for \<open>tries\<close> from 10 down to 1,
  so the waits are 2, 20/9, ..., 10, 20 and strictly increase; after the tenth retry it
  sends nothing more, and it reports failure, a \<open>RemoteError\<close> with the server's
  message, whenever the \<open>Response\<close> field of the last answer is not \<open>Success\<close>.
\<close>

theorem C2_backoff_increases:
  assumes "\<forall>n. rate_limited (remote e n (p, api_key e))"
  shows "requests (snd (api_query e p w)) = requests w + 11
     \<and> sleeps (snd (api_query e p w)) =
         sleeps w @ map (\<lambda>tries. 20 / rat_of_int tries) [10, 9, 8, 7, 6, 5, 4, 3, 2, 1]
     \<and> sorted_wrt (<) (map (\<lambda>tries. 20 / rat_of_int tries) [10, 9, 8, 7, 6, 5, 4, 3, 2, 1])
     \<and> (\<forall>b. remote e (requests w + 10) (p, api_key e) = Body b
            \<and> (case map_of b ''Response'' of None \<Rightarrow> JStr ''Success'' | Some v \<Rightarrow> v)
                 \<noteq> JStr ''Success''
          \<longrightarrow> fst (api_query e p w)
                = Inl (RemoteError (QueryFailed (Some (JStr RATE_LIMIT_MSG)))))"
proof -
  have m: "map_of b ''Message'' = Some (JStr RATE_LIMIT_MSG)"
    if "remote e (requests w + 10) (p, api_key e) = Body b" for b
    using assms[rule_format, of "requests w + 10"] that by (simp add: rate_limited_def)
  show ?thesis
    using assms by (auto simp: api_query_limited final_answer_def m)
qed

theorem C2_backoff_increases_witness:
  "(\<forall>n. rate_limited (remote always_limited n (CoinlistPath, api_key always_limited)))
   \<and> remote always_limited (requests fresh + 10) (CoinlistPath, api_key always_limited)
       = Body [(''Response'', JStr ''Error''), (''Message'', JStr RATE_LIMIT_MSG)]
   \<and> (case map_of [(''Response'', JStr ''Error''), (''Message'', JStr RATE_LIMIT_MSG)]
              ''Response'' of None \<Rightarrow> JStr ''Success'' | Some v \<Rightarrow> v) \<noteq> JStr ''Success''
   \<and> requests (snd (api_query always_limited CoinlistPath fresh)) = 11
   \<and> sleeps (snd (api_query always_limited CoinlistPath fresh)) =
       [2, 20 / 9, 5 / 2, 20 / 7, 10 / 3, 4, 5, 20 / 3, 10, 20]
   \<and> fst (api_query always_limited CoinlistPath fresh) =
       Inl (RemoteError (QueryFailed (Some (JStr RATE_LIMIT_MSG))))"
proof -
  let ?b = "[(''Response'', JStr ''Error''), (''Message'', JStr RATE_LIMIT_MSG)]"
  have h: "\<forall>n. rate_limited (remote always_limited n (CoinlistPath, api_key always_limited))"
    by (simp add: always_limited_limited)
  have r: "remote always_limited (requests fresh + 10) (CoinlistPath, api_key always_limited)
      = Body ?b"
    by (simp add: always_limited_def serving_def)
  have n: "(case map_of ?b ''Response'' of None \<Rightarrow> JStr ''Success'' | Some v \<Rightarrow> v)
      \<noteq> JStr ''Success''"
    by simp
  note t = C2_backoff_increases[OF h, of fresh]
  from t r n have f: "fst (api_query always_limited CoinlistPath fresh) =
       Inl (RemoteError (QueryFailed (Some (JStr RATE_LIMIT_MSG))))"
    by blast
  from t have c: "requests (snd (api_query always_limited CoinlistPath fresh)) = 11"
    "sleeps (snd (api_query always_limited CoinlistPath fresh)) =
       [2, 20 / 9, 5 / 2, 20 / 7, 10 / 3, 4, 5, 20 / 3, 10, 20]"
    by (simp_all add: fresh_def)
  from h r n c f show ?thesis by blast
qed

text \<open>
  Against a server whose rate-limit answers carry no \<open>Response\<close> field, the waits are
  not strictly decreasing (the first is 2 seconds, the last 20), and after the tenth
  retry no failure is reported: the rate-limit payload is returned as the result.
\<close>

theorem C2_backoff_not_decreasing:
  "sleeps (snd (api_query limited_without_response CoinlistPath fresh)) =
     [2, 20 / 9, 5 / 2, 20 / 7, 10 / 3, 4, 5, 20 / 3, 10, 20]
   \<and> \<not> sorted_wrt (>) (sleeps (snd (api_query limited_without_response CoinlistPath fresh)))
   \<and> fst (api_query limited_without_response CoinlistPath fresh)
       = Inr (JDict [(''Message'', JStr RATE_LIMIT_MSG)])"
  by (simp add: api_query_limited limited_without_response_limited fresh_def final_answer_def)
     (simp add: limited_without_response_def serving_def)

section \<open>Results about the two-hop synthesizer\<close>

lemma py_nth_Inr: "py_nth xs (int i) = Inr x \<longleftrightarrow> i < length xs \<and> x = xs ! i"
  by (auto simp: py_nth_def Let_def)


lemma ebind_Inr_left [simp]: "ebind (Inr x) f = f x"
  by (simp add: ebind_def)

lemma ebind_Inl_left [simp]: "ebind (Inl e) f = Inl e"
  by (simp add: ebind_def)

lemma getitem_JDict:
  "getitem (JDict kvs) k = (case map_of kvs k of Some v \<Rightarrow> Inr v | None \<Rightarrow> Inl (KeyError k))"
  by (simp add: getitem_def)











lemmas special_tables =
  CRYPTOCOMPARE_SPECIAL_CASES_def CRYPTOCOMPARE_SPECIAL_CASES_MAPPING_def
  A_USDT_def A_DAI_def A_WETH_def A_COMP_def

text \<open>
  C3. A pair whose only special asset is on the \<open>to\<close> side passes the endpoints' gate
  (\<open>from_asset in CRYPTOCOMPARE_SPECIAL_CASES or to_asset in CRYPTOCOMPARE_SPECIAL_CASES\<close>),
  and \<open>_special_case_handling\<close> then subscripts the mapping with \<open>from_asset\<close>: for ETH
  to cDAI each of the three endpoints raises \<open>KeyError\<close> before any request is sent.
\<close>

theorem C3_to_side_special_case_raises:
  "query_endpoint_histohour e ''ETH'' ''cDAI'' limit to_timestamp False w
     = (Inl (KeyError ''ETH''), w)
   \<and> query_endpoint_price e ''ETH'' ''cDAI'' False w = (Inl (KeyError ''ETH''), w)
   \<and> query_endpoint_pricehistorical e ''ETH'' ''cDAI'' ts False w
     = (Inl (KeyError ''ETH''), w)
   \<and> ''cDAI'' \<in> set CRYPTOCOMPARE_SPECIAL_CASES
   \<and> ''ETH'' \<notin> set CRYPTOCOMPARE_SPECIAL_CASES"
  by (simp add: query_endpoint_histohour.simps query_endpoint_price.simps
      query_endpoint_pricehistorical.simps special_case_handling.simps special_tables)


lemmas run_query =
  query_endpoint_histohour.simps query_endpoint_price.simps
  query_endpoint_pricehistorical.simps special_case_handling.simps
  api_query_def api_query_loop.simps CRYPTOCOMPARE_QUERY_RETRY_TIMES_def
  serving_def histohour_body_def fresh_def special_tables



section \<open>Results about the nearest-timestamp resolver\<close>

lemma py_nth_in: "i < length xs \<Longrightarrow> py_nth xs (int i) = Inr (xs ! i)"
  by (simp add: py_nth_def)

lemma closest_index_inner:
  assumes "dat \<noteq> []" "time (dat ! 0) \<le> ts"
    and "i = nat ((ts - time (dat ! 0)) div 3600)" "i + 1 < length dat"
  shows "closest_index dat ts =
           Inr (Some (int (if \<bar>time (dat ! (i + 1)) - ts\<bar> < \<bar>time (dat ! i) - ts\<bar>
                           then i + 1 else i)))"
proof -
  have nn: "0 \<le> (ts - time (dat ! 0)) div 3600"
    using assms(2) by (simp add: pos_imp_zdiv_nonneg_iff)
  then have i: "(ts - time (dat ! 0)) div 3600 = int i"
    using assms(3) by simp
  have p0: "py_nth dat 0 = Inr (dat ! 0)"
    using assms(1) by (simp add: py_nth_def)
  have pi: "py_nth dat (int i) = Inr (dat ! i)"
    using assms(4) by (simp add: py_nth_Inr)
  have pi1: "py_nth dat (int i + 1) = Inr (dat ! (i + 1))"
    using assms(4) py_nth_Inr[of dat "i + 1" "dat ! (i + 1)"] by (simp add: add.commute)
  show ?thesis
    unfolding closest_index_def
    using assms(2,4) by (simp add: p0 i pi pi1 Let_def)
qed

lemma hourly_data_price_inner:
  assumes "dat \<noteq> []" "time (dat ! 0) \<le> ts"
    and "i = nat ((ts - time (dat ! 0)) div 3600)" "i + 1 < length dat"
    and "j = (if \<bar>time (dat ! (i + 1)) - ts\<bar> < \<bar>time (dat ! i) - ts\<bar> then i + 1 else i)"
  shows "hourly_data_price dat ts = Inr ((high (dat ! j) + low (dat ! j)) / 2)"
proof -
  have j: "j < length dat" using assms(4,5) by simp
  have "closest_index dat ts = Inr (Some (int j))"
    using closest_index_inner[OF assms(1-4)] assms(5) by simp
  then show ?thesis
    using j by (simp add: hourly_data_price_def py_nth_in)
qed

lemma closest_index_at_length:
  assumes "dat \<noteq> []" "time (dat ! 0) \<le> ts"
    and "(ts - time (dat ! 0)) div 3600 = int (length dat)"
  shows "closest_index dat ts = Inr None"
proof -
  have p0: "py_nth dat 0 = Inr (dat ! 0)"
    using assms(1) by (simp add: py_nth_def)
  show ?thesis
    unfolding closest_index_def
    using assms(2,3) by (simp add: p0 Let_def)
qed

lemma closest_index_beyond_length:
  assumes "dat \<noteq> []" "time (dat ! 0) \<le> ts"
    and "(ts - time (dat ! 0)) div 3600 > int (length dat)"
  shows "closest_index dat ts = Inl IndexError"
proof -
  have p0: "py_nth dat 0 = Inr (dat ! 0)"
    using assms(1) by (simp add: py_nth_def)
  have pn: "py_nth dat ((ts - time (dat ! 0)) div 3600 - 1) = Inl IndexError"
    using assms(3) by (simp add: py_nth_def Let_def)
  show ?thesis
    unfolding closest_index_def
    using assms(2,3) by (simp add: p0 pn Let_def)
qed


lemma hourly_data_price_at_length:
  assumes "dat \<noteq> []" "time (dat ! 0) \<le> ts"
    and "(ts - time (dat ! 0)) div 3600 = int (length dat)"
  shows "hourly_data_price dat ts = Inr 0"
  by (simp add: hourly_data_price_def closest_index_at_length[OF assms])

lemma hourly_data_price_beyond_length:
  assumes "dat \<noteq> []" "time (dat ! 0) \<le> ts"
    and "(ts - time (dat ! 0)) div 3600 > int (length dat)"
  shows "hourly_data_price dat ts = Inl IndexError"
  by (simp add: hourly_data_price_def closest_index_beyond_length[OF assms])

lemma hourly_data_price_empty: "hourly_data_price [] ts = Inl IndexError"
  by (simp add: hourly_data_price_def closest_index_def py_nth_def)

text \<open>
  C5. For a non-empty series and a timestamp at or after its first entry, with candidate
  index \<open>(timestamp - data[0].time) div 3600\<close>: when the index equals the length of the
  series the code gives the hourly data up (price zero, the alternatives follow) instead
  of stepping back to the last entry, and when the index exceeds the length it steps
  back by one, stays out of range and reads \<open>data[index]\<close>: an \<open>IndexError\<close>.
\<close>

theorem C5_out_of_range_index:
  "(dat \<noteq> [] \<and> time (dat ! 0) \<le> ts
      \<and> (ts - time (dat ! 0)) div 3600 = int (length dat)
    \<longrightarrow> closest_index dat ts = Inr None \<and> hourly_data_price dat ts = Inr 0)
   \<and> (dat \<noteq> [] \<and> time (dat ! 0) \<le> ts
      \<and> (ts - time (dat ! 0)) div 3600 > int (length dat)
    \<longrightarrow> closest_index dat ts = Inl IndexError \<and> hourly_data_price dat ts = Inl IndexError)"
  using closest_index_at_length[of dat ts] hourly_data_price_at_length[of dat ts]
    closest_index_beyond_length[of dat ts] hourly_data_price_beyond_length[of dat ts]
  by blast

theorem C5_out_of_range_index_witness:
  "three_hours 1000 \<noteq> [] \<and> time (three_hours 1000 ! 0) \<le> 11800
   \<and> (11800 - time (three_hours 1000 ! 0)) div 3600 = int (length (three_hours 1000))
   \<and> closest_index (three_hours 1000) 11800 = Inr None
   \<and> hourly_data_price (three_hours 1000) 11800 = Inr 0
   \<and> time (three_hours 1000 ! 0) \<le> 19000
   \<and> (19000 - time (three_hours 1000 ! 0)) div 3600 > int (length (three_hours 1000))
   \<and> closest_index (three_hours 1000) 19000 = Inl IndexError
   \<and> hourly_data_price (three_hours 1000) 19000 = Inl IndexError"
proof -
  have a: "three_hours 1000 \<noteq> []" "time (three_hours 1000 ! 0) \<le> 11800"
    "(11800 - time (three_hours 1000 ! 0)) div 3600 = int (length (three_hours 1000))"
    "time (three_hours 1000 ! 0) \<le> 19000"
    "(19000 - time (three_hours 1000 ! 0)) div 3600 > int (length (three_hours 1000))"
    by (simp_all add: three_hours_def)
  from a C5_out_of_range_index[of "three_hours 1000" 11800]
    C5_out_of_range_index[of "three_hours 1000" 19000]
  show ?thesis by blast
qed

lemma sbind_Inr [simp]: "sbind (Inr x, w) f = f x w"
  by (simp add: sbind_def)

lemma sbind_Inl [simp]: "sbind (Inl err, w) f = (Inl err, w)"
  by (simp add: sbind_def)




lemmas histohour_cases =
  CRYPTOCOMPARE_SPECIAL_HISTOHOUR_CASES_def A_COMP_def A_USD_def

lemma histohour_case_COMP:
  assumes "map_of CRYPTOCOMPARE_SPECIAL_HISTOHOUR_CASES a = Some d"
  shows "a = ''COMP'' \<and> d = \<lparr>timestamp = 1592632800, usd_price = 20293 / 100\<rparr>"
  using assms by (auto simp: histohour_cases split: if_splits)

lemma override_from:
  assumes "map_of CRYPTOCOMPARE_SPECIAL_HISTOHOUR_CASES from_asset = Some d"
    and "ts \<le> timestamp d"
  shows "query_historical_price e from_asset A_USD ts hds w = Some (Inr (usd_price d), w)"
proof -
  from histohour_case_COMP[OF assms(1)] have
    f: "from_asset = ''COMP''" and d: "d = \<lparr>timestamp = 1592632800, usd_price = 20293 / 100\<rparr>"
    by simp_all
  have "check_and_get_special_histohour_price from_asset A_USD ts = Inr (20293 / 100)"
    using assms(2) unfolding f d
    by (simp add: check_and_get_special_histohour_price_def table_item_def histohour_cases)
  then show ?thesis
    by (simp add: query_historical_price_def d)
qed

lemma override_to:
  assumes "map_of CRYPTOCOMPARE_SPECIAL_HISTOHOUR_CASES to_asset = Some d"
    and "ts \<le> timestamp d"
  shows "query_historical_price e A_USD to_asset ts hds w = Some (Inr (1 / usd_price d), w)"
proof -
  from histohour_case_COMP[OF assms(1)] have
    f: "to_asset = ''COMP''" and d: "d = \<lparr>timestamp = 1592632800, usd_price = 20293 / 100\<rparr>"
    by simp_all
  have "check_and_get_special_histohour_price A_USD to_asset ts = Inr (1 / (20293 / 100))"
    using assms(2) unfolding f d
    by (simp add: check_and_get_special_histohour_price_def table_item_def histohour_cases
        fval_div_def)
  then show ?thesis
    by (simp add: query_historical_price_def d)
qed

lemma no_override:
  assumes "\<not> (to_asset = A_USD
             \<and> (\<exists>d. map_of CRYPTOCOMPARE_SPECIAL_HISTOHOUR_CASES from_asset = Some d
                    \<and> ts \<le> timestamp d))"
    and "\<not> (from_asset = A_USD
             \<and> (\<exists>d. map_of CRYPTOCOMPARE_SPECIAL_HISTOHOUR_CASES to_asset = Some d
                    \<and> ts \<le> timestamp d))"
  shows "check_and_get_special_histohour_price from_asset to_asset ts = Inr 0"
  using assms
  by (auto simp: check_and_get_special_histohour_price_def table_item_def histohour_cases
      fval_div_def)

text \<open>
  C8. When the other side is USD and the asset has an entry in the table of special
  histohour cases whose timestamp is not before the queried one,
  \<open>query_historical_price\<close> returns the entry's \<open>usd_price\<close> (its inverse when the
  asset is the \<open>to\<close> side) and leaves the state as it was: no request, no cache access.
  Otherwise the table yields zero and the query continues with the hourly series.
\<close>

theorem C8_override_short_circuit:
  "(map_of CRYPTOCOMPARE_SPECIAL_HISTOHOUR_CASES from_asset = Some d \<and> ts \<le> timestamp d
    \<longrightarrow> query_historical_price e from_asset A_USD ts hds w = Some (Inr (usd_price d), w))
   \<and> (map_of CRYPTOCOMPARE_SPECIAL_HISTOHOUR_CASES to_asset = Some d \<and> ts \<le> timestamp d
    \<longrightarrow> query_historical_price e A_USD to_asset ts hds w
          = Some (Inr (1 / usd_price d), w))
   \<and> (\<not> (to_asset = A_USD
           \<and> (\<exists>d. map_of CRYPTOCOMPARE_SPECIAL_HISTOHOUR_CASES from_asset = Some d
                  \<and> ts \<le> timestamp d))
      \<and> \<not> (from_asset = A_USD
           \<and> (\<exists>d. map_of CRYPTOCOMPARE_SPECIAL_HISTOHOUR_CASES to_asset = Some d
                  \<and> ts \<le> timestamp d))
    \<longrightarrow> check_and_get_special_histohour_price from_asset to_asset ts = Inr 0
      \<and> query_historical_price e from_asset to_asset ts hds w
          = series_price e from_asset to_asset ts hds w)"
  using override_from[of from_asset d ts e hds w] override_to[of to_asset d ts e hds w]
    no_override[of to_asset from_asset ts]
  by (auto simp: query_historical_price_def)

theorem C8_override_short_circuit_witness:
  "map_of CRYPTOCOMPARE_SPECIAL_HISTOHOUR_CASES ''COMP''
     = Some \<lparr>timestamp = 1592632800, usd_price = 20293 / 100\<rparr>
   \<and> (1592632800::int) \<le> timestamp \<lparr>timestamp = 1592632800, usd_price = 20293 / 100\<rparr>
   \<and> query_historical_price (serving empty_answer 5000) ''COMP'' A_USD 1592632800 0 fresh
       = Some (Inr (20293 / 100), fresh)
   \<and> query_historical_price (serving empty_answer 5000) A_USD ''COMP'' 1592632800 0 fresh
       = Some (Inr (100 / 20293), fresh)
   \<and> \<not> (A_USD = A_USD
          \<and> (\<exists>d. map_of CRYPTOCOMPARE_SPECIAL_HISTOHOUR_CASES ''COMP'' = Some d
                 \<and> 1592632801 \<le> timestamp d))
   \<and> \<not> (''COMP'' = A_USD
          \<and> (\<exists>d. map_of CRYPTOCOMPARE_SPECIAL_HISTOHOUR_CASES A_USD = Some d
                 \<and> 1592632801 \<le> timestamp d))
   \<and> check_and_get_special_histohour_price ''COMP'' A_USD 1592632801 = Inr 0
   \<and> query_historical_price (serving empty_answer 5000) ''COMP'' A_USD 1592632801 0 fresh
       = series_price (serving empty_answer 5000) ''COMP'' A_USD 1592632801 0 fresh"
proof -
  let ?d = "\<lparr>timestamp = 1592632800, usd_price = 20293 / 100\<rparr>"
  let ?e = "serving empty_answer 5000"
  have m: "map_of CRYPTOCOMPARE_SPECIAL_HISTOHOUR_CASES ''COMP'' = Some ?d"
    by (simp add: histohour_cases)
  have t: "(1592632800::int) \<le> timestamp ?d" by simp
  have n1: "\<not> (A_USD = A_USD
          \<and> (\<exists>d. map_of CRYPTOCOMPARE_SPECIAL_HISTOHOUR_CASES ''COMP'' = Some d
                 \<and> 1592632801 \<le> timestamp d))"
    by (simp add: histohour_cases)
  have n2: "\<not> (''COMP'' = A_USD
          \<and> (\<exists>d. map_of CRYPTOCOMPARE_SPECIAL_HISTOHOUR_CASES A_USD = Some d
                 \<and> 1592632801 \<le> timestamp d))"
    by (simp add: histohour_cases)
  from C8_override_short_circuit[of "''COMP''" ?d 1592632800 ?e 0 fresh "''COMP''"] m t
  have "query_historical_price ?e ''COMP'' A_USD 1592632800 0 fresh
             = Some (Inr (usd_price ?d), fresh)"
    "query_historical_price ?e A_USD ''COMP'' 1592632800 0 fresh
             = Some (Inr (1 / usd_price ?d), fresh)"
    by blast+
  then have a: "query_historical_price ?e ''COMP'' A_USD 1592632800 0 fresh
             = Some (Inr (20293 / 100), fresh)"
    "query_historical_price ?e A_USD ''COMP'' 1592632800 0 fresh
             = Some (Inr (100 / 20293), fresh)"
    by simp_all
  from C8_override_short_circuit[of "''COMP''" ?d 1592632801 ?e 0 fresh A_USD] n1 n2
  have c: "check_and_get_special_histohour_price ''COMP'' A_USD 1592632801 = Inr 0"
    "query_historical_price ?e ''COMP'' A_USD 1592632801 0 fresh
       = series_price ?e ''COMP'' A_USD 1592632801 0 fresh"
    by blast+
  from m t a n1 n2 c show ?thesis by blast
qed

lemmas run_backfill =
  get_historical_data_def got_cached_price_def add_page_def check_hourly_data_sanity_def
  write_history_data_in_file_def dict_history_to_data_def dict_history_to_entries_def
  dict_history_to_entry_def getitem_def as_int_def as_list_def FVal_def py_nth_def

lemma empty_backfill_run:
  "get_historical_data (serving empty_answer 5000) ''BTC'' ''USD'' 0 0 fresh
     = Some (Inr [], empty_backfill)"
  apply (simp add: get_historical_data_def got_cached_price_def fresh_def)
  apply (subst backfill_loop.simps)
  apply (simp add: run_query empty_answer_def run_backfill empty_backfill_def Let_def)
  done


text \<open>
  C10. \<open>query_historical_price\<close> reads \<open>data[0]\<close> unguarded: on an empty series the
  search raises \<open>IndexError\<close>, and whenever the special histohour table yields zero and
  \<open>get_historical_data\<close> returns an empty list the whole query ends in that
  \<open>IndexError\<close>, with no alternative tried and no \<open>NoPriceForGivenTimestamp\<close>.
\<close>

theorem C10_empty_series_raises:
  "hourly_data_price [] ts = Inl IndexError
   \<and> (check_and_get_special_histohour_price from_asset to_asset ts = Inr 0
      \<and> get_historical_data e from_asset to_asset ts hds w = Some (Inr [], w1)
    \<longrightarrow> query_historical_price e from_asset to_asset ts hds w = Some (Inl IndexError, w1))"
  by (simp add: query_historical_price_def series_price_def hourly_data_price_empty)

theorem C10_empty_series_raises_witness:
  "check_and_get_special_histohour_price ''BTC'' ''USD'' 0 = Inr 0
   \<and> get_historical_data (serving empty_answer 5000) ''BTC'' ''USD'' 0 0 fresh
       = Some (Inr [], empty_backfill)
   \<and> query_historical_price (serving empty_answer 5000) ''BTC'' ''USD'' 0 0 fresh
       = Some (Inl IndexError, empty_backfill)"
proof -
  have c: "check_and_get_special_histohour_price ''BTC'' ''USD'' 0 = Inr 0"
    by (simp add: check_and_get_special_histohour_price_def
        CRYPTOCOMPARE_SPECIAL_HISTOHOUR_CASES_def A_COMP_def A_USD_def)
  from C10_empty_series_raises[of 0 "''BTC''" "''USD''" "serving empty_answer 5000" 0 fresh
      empty_backfill] c empty_backfill_run
  show ?thesis by blast
qed

lemma cached_hit:
  assumes "start_time h \<le> ts" "ts < end_time h"
  shows "get_historical_data e from_asset to_asset ts hds (cached (from_asset @ ''_'' @ to_asset) h)
     = Some (Inr (data h), cached (from_asset @ ''_'' @ to_asset) h)"
  using assms by (simp add: get_historical_data_def got_cached_price_def cached_def fresh_def Let_def)

lemma returned_price:
  assumes "check_and_get_special_histohour_price from_asset to_asset ts = Inr 0"
    and "get_historical_data e from_asset to_asset ts hds w = Some (Inr dat, w1)"
    and "hourly_data_price dat ts = Inr mid" and "mid \<noteq> 0"
  shows "query_historical_price e from_asset to_asset ts hds w
           = Some (finish_price e mid from_asset to_asset ts w1)"
  using assms
  by (simp add: query_historical_price_def series_price_def fallback_price_def)

lemma finish_price_plain:
  assumes "mid \<noteq> 0"
    and "\<not> ((is_fiat e to_asset \<and> to_asset \<noteq> A_USD) \<or> (is_fiat e from_asset \<and> from_asset \<noteq> A_USD))"
  shows "finish_price e mid from_asset to_asset ts w1 = (Inr mid, w1)"
  using assms by (auto simp: finish_price_def)


lemma hours_cached_hit:
  "get_historical_data e ''ETH'' ''USD'' 6400 0 (hours_cached ''ETH_USD'')
     = Some (Inr (three_hours 1000), hours_cached ''ETH_USD'')"
  "get_historical_data e ''ETH'' ''EUR'' 6400 0 (hours_cached ''ETH_EUR'')
     = Some (Inr (three_hours 1000), hours_cached ''ETH_EUR'')"
  by (simp_all add: get_historical_data_def got_cached_price_def hours_cached_def cached_def
      fresh_def Let_def)

lemma no_override_ETH:
  "check_and_get_special_histohour_price ''ETH'' ''USD'' 6400 = Inr 0"
  "check_and_get_special_histohour_price ''ETH'' ''EUR'' 6400 = Inr 0"
  by (simp_all add: check_and_get_special_histohour_price_def histohour_cases)

lemma three_hours_6400:
  "hourly_data_price (three_hours 1000) 6400 = Inr 20"
  using hourly_data_price_inner[of "three_hours 1000" 6400 1 1]
  by (simp add: three_hours_def)

text \<open>
  C6, as the code has it. For a candidate index \<open>i\<close> that is in bounds together with its
  successor, the entry read is the one of \<open>i\<close> and \<open>i + 1\<close> whose time is closer to the
  timestamp, \<open>i\<close> on a tie, and the price the hourly data give is the midpoint of its
  \<open>high\<close> and \<open>low\<close>. Where the special histohour table yields zero and the midpoint is
  not zero, \<open>query_historical_price\<close> ends with that midpoint (\<open>finish_price\<close>), and
  returns it when neither asset is a fiat currency other than USD. For entries at \<open>T\<close>,
  \<open>T + 3600\<close>, \<open>T + 7200\<close> and the timestamp \<open>T + 3601\<close> the entry is the one at
  \<open>T + 3600\<close>.
\<close>

theorem C6_closest_entry:
  "(dat \<noteq> [] \<and> time (dat ! 0) \<le> ts
      \<and> i = nat ((ts - time (dat ! 0)) div 3600) \<and> i + 1 < length dat
      \<and> j = (if \<bar>time (dat ! (i + 1)) - ts\<bar> < \<bar>time (dat ! i) - ts\<bar> then i + 1 else i)
    \<longrightarrow> closest_index dat ts = Inr (Some (int j))
      \<and> hourly_data_price dat ts = Inr ((high (dat ! j) + low (dat ! j)) / 2)
      \<and> (check_and_get_special_histohour_price from_asset to_asset ts = Inr 0
          \<and> get_historical_data e from_asset to_asset ts hds w = Some (Inr dat, w1)
          \<and> (high (dat ! j) + low (dat ! j)) / 2 \<noteq> 0
        \<longrightarrow> query_historical_price e from_asset to_asset ts hds w
              = Some (finish_price e ((high (dat ! j) + low (dat ! j)) / 2)
                        from_asset to_asset ts w1)
          \<and> (\<not> ((is_fiat e to_asset \<and> to_asset \<noteq> A_USD)
                  \<or> (is_fiat e from_asset \<and> from_asset \<noteq> A_USD))
            \<longrightarrow> query_historical_price e from_asset to_asset ts hds w
                  = Some (Inr ((high (dat ! j) + low (dat ! j)) / 2), w1))))
   \<and> closest_index
        [\<lparr>time = T, low = l0, high = h0\<rparr>, \<lparr>time = T + 3600, low = l1, high = h1\<rparr>,
         \<lparr>time = T + 7200, low = l2, high = h2\<rparr>] (T + 3601) = Inr (Some 1)
   \<and> hourly_data_price
        [\<lparr>time = T, low = l0, high = h0\<rparr>, \<lparr>time = T + 3600, low = l1, high = h1\<rparr>,
         \<lparr>time = T + 7200, low = l2, high = h2\<rparr>] (T + 3601) = Inr ((h1 + l1) / 2)"
proof -
  let ?d = "[\<lparr>time = T, low = l0, high = h0\<rparr>, \<lparr>time = T + 3600, low = l1, high = h1\<rparr>,
         \<lparr>time = T + 7200, low = l2, high = h2\<rparr>]"
  let ?mid = "(high (dat ! j) + low (dat ! j)) / 2"
  have e1: "closest_index ?d (T + 3601) = Inr (Some 1)"
    using closest_index_inner[of ?d "T + 3601" 1] by simp
  have e2: "hourly_data_price ?d (T + 3601) = Inr ((h1 + l1) / 2)"
    using hourly_data_price_inner[of ?d "T + 3601" 1 1] by simp
  have a: "closest_index dat ts = Inr (Some (int j))
      \<and> hourly_data_price dat ts = Inr ?mid
      \<and> (check_and_get_special_histohour_price from_asset to_asset ts = Inr 0
          \<and> get_historical_data e from_asset to_asset ts hds w = Some (Inr dat, w1)
          \<and> ?mid \<noteq> 0
        \<longrightarrow> query_historical_price e from_asset to_asset ts hds w
              = Some (finish_price e ?mid from_asset to_asset ts w1)
          \<and> (\<not> ((is_fiat e to_asset \<and> to_asset \<noteq> A_USD)
                  \<or> (is_fiat e from_asset \<and> from_asset \<noteq> A_USD))
            \<longrightarrow> query_historical_price e from_asset to_asset ts hds w
                  = Some (Inr ?mid, w1)))"
    if h: "dat \<noteq> [] \<and> time (dat ! 0) \<le> ts
      \<and> i = nat ((ts - time (dat ! 0)) div 3600) \<and> i + 1 < length dat
      \<and> j = (if \<bar>time (dat ! (i + 1)) - ts\<bar> < \<bar>time (dat ! i) - ts\<bar> then i + 1 else i)"
  proof -
    from h have h1: "dat \<noteq> []" and h2: "time (dat ! 0) \<le> ts"
      and h3: "i = nat ((ts - time (dat ! 0)) div 3600)" and h4: "i + 1 < length dat"
      and h5: "j = (if \<bar>time (dat ! (i + 1)) - ts\<bar> < \<bar>time (dat ! i) - ts\<bar>
                    then i + 1 else i)"
      by blast+
    have c: "closest_index dat ts = Inr (Some (int j))"
      unfolding h5 by (rule closest_index_inner[OF h1 h2 h3 h4])
    have p: "hourly_data_price dat ts = Inr ?mid"
      by (rule hourly_data_price_inner[OF h1 h2 h3 h4 h5])
    have q: "query_historical_price e from_asset to_asset ts hds w
              = Some (finish_price e ?mid from_asset to_asset ts w1)
          \<and> (\<not> ((is_fiat e to_asset \<and> to_asset \<noteq> A_USD)
                  \<or> (is_fiat e from_asset \<and> from_asset \<noteq> A_USD))
            \<longrightarrow> query_historical_price e from_asset to_asset ts hds w
                  = Some (Inr ?mid, w1))"
      if k: "check_and_get_special_histohour_price from_asset to_asset ts = Inr 0
          \<and> get_historical_data e from_asset to_asset ts hds w = Some (Inr dat, w1)
          \<and> ?mid \<noteq> 0"
    proof -
      from k have k1: "check_and_get_special_histohour_price from_asset to_asset ts = Inr 0"
        and k2: "get_historical_data e from_asset to_asset ts hds w = Some (Inr dat, w1)"
        and k3: "?mid \<noteq> 0"
        by blast+
      have r: "query_historical_price e from_asset to_asset ts hds w
              = Some (finish_price e ?mid from_asset to_asset ts w1)"
        by (rule returned_price[OF k1 k2 p k3])
      have "query_historical_price e from_asset to_asset ts hds w = Some (Inr ?mid, w1)"
        if n: "\<not> ((is_fiat e to_asset \<and> to_asset \<noteq> A_USD)
                  \<or> (is_fiat e from_asset \<and> from_asset \<noteq> A_USD))"
        unfolding r finish_price_plain[OF k3 n] ..
      with r show ?thesis by blast
    qed
    from c p q show ?thesis by blast
  qed
  from a e1 e2 show ?thesis by blast
qed


theorem C6_closest_entry_witness:
  "three_hours 1000 \<noteq> [] \<and> time (three_hours 1000 ! 0) \<le> 6400
   \<and> (1::nat) = nat ((6400 - time (three_hours 1000 ! 0)) div 3600)
   \<and> 1 + 1 < length (three_hours 1000)
   \<and> (1::nat) = (if \<bar>time (three_hours 1000 ! (1 + 1)) - 6400\<bar>
                       < \<bar>time (three_hours 1000 ! 1) - 6400\<bar> then 1 + 1 else 1)
   \<and> closest_index (three_hours 1000) 6400 = Inr (Some 1)
   \<and> hourly_data_price (three_hours 1000) 6400 = Inr 20
   \<and> check_and_get_special_histohour_price ''ETH'' ''USD'' 6400 = Inr 0
   \<and> get_historical_data (usd_quotes (\<lambda>a. 1)) ''ETH'' ''USD'' 6400 0 (hours_cached ''ETH_USD'')
       = Some (Inr (three_hours 1000), hours_cached ''ETH_USD'')
   \<and> (high (three_hours 1000 ! 1) + low (three_hours 1000 ! 1)) / 2 \<noteq> 0
   \<and> \<not> ((is_fiat (usd_quotes (\<lambda>a. 1)) ''USD'' \<and> ''USD'' \<noteq> A_USD)
          \<or> (is_fiat (usd_quotes (\<lambda>a. 1)) ''ETH'' \<and> ''ETH'' \<noteq> A_USD))
   \<and> query_historical_price (usd_quotes (\<lambda>a. 1)) ''ETH'' ''USD'' 6400 0
         (hours_cached ''ETH_USD'')
       = Some (Inr 20, hours_cached ''ETH_USD'')"
proof -
  let ?e = "usd_quotes (\<lambda>a. 1)"
  have a: "three_hours 1000 \<noteq> [] \<and> time (three_hours 1000 ! 0) \<le> 6400
   \<and> (1::nat) = nat ((6400 - time (three_hours 1000 ! 0)) div 3600)
   \<and> 1 + 1 < length (three_hours 1000)
   \<and> (1::nat) = (if \<bar>time (three_hours 1000 ! (1 + 1)) - 6400\<bar>
                       < \<bar>time (three_hours 1000 ! 1) - 6400\<bar> then 1 + 1 else 1)"
    by (simp add: three_hours_def)
  have k: "check_and_get_special_histohour_price ''ETH'' ''USD'' 6400 = Inr 0
      \<and> get_historical_data ?e ''ETH'' ''USD'' 6400 0 (hours_cached ''ETH_USD'')
          = Some (Inr (three_hours 1000), hours_cached ''ETH_USD'')
      \<and> (high (three_hours 1000 ! 1) + low (three_hours 1000 ! 1)) / 2 \<noteq> 0"
    by (simp add: no_override_ETH hours_cached_hit) (simp add: three_hours_def)
  have n: "\<not> ((is_fiat ?e ''USD'' \<and> ''USD'' \<noteq> A_USD)
          \<or> (is_fiat ?e ''ETH'' \<and> ''ETH'' \<noteq> A_USD))"
    by (simp add: usd_quotes_def serving_def A_USD_def)
  have c: "closest_index (three_hours 1000) 6400 = Inr (Some (int 1))
      \<and> hourly_data_price (three_hours 1000) 6400
          = Inr ((high (three_hours 1000 ! 1) + low (three_hours 1000 ! 1)) / 2)
      \<and> query_historical_price ?e ''ETH'' ''USD'' 6400 0 (hours_cached ''ETH_USD'')
          = Some (Inr ((high (three_hours 1000 ! 1) + low (three_hours 1000 ! 1)) / 2),
                  hours_cached ''ETH_USD'')"
    using C6_closest_entry[of "three_hours 1000" 6400 1 1 "''ETH''" "''USD''" ?e 0
        "hours_cached ''ETH_USD''" "hours_cached ''ETH_USD''"] a k n
    by blast
  have v: "(high (three_hours 1000 ! 1) + low (three_hours 1000 ! 1)) / 2 = 20" "int 1 = 1"
    by (simp_all add: three_hours_def)
  from c have c': "closest_index (three_hours 1000) 6400 = Inr (Some 1)
      \<and> hourly_data_price (three_hours 1000) 6400 = Inr 20
      \<and> query_historical_price ?e ''ETH'' ''USD'' 6400 0 (hours_cached ''ETH_USD'')
          = Some (Inr 20, hours_cached ''ETH_USD'')"
    unfolding v .
  from a k n c' show ?thesis by blast
qed

text \<open>
  For ETH to EUR the midpoint of the chosen entry is 20 and the price returned is 2, the
  USD cross rate the consistency adjuster puts in its place.
\<close>

theorem C6_returned_price_not_midpoint:
  "closest_index (three_hours 1000) 6400 = Inr (Some 1)
   \<and> hourly_data_price (three_hours 1000) 6400 = Inr 20
   \<and> get_historical_data (usd_quotes (\<lambda>a. if a = ''ETH'' then 2 else 1)) ''ETH'' ''EUR'' 6400 0
         (hours_cached ''ETH_EUR'')
       = Some (Inr (three_hours 1000), hours_cached ''ETH_EUR'')
   \<and> query_historical_price (usd_quotes (\<lambda>a. if a = ''ETH'' then 2 else 1)) ''ETH'' ''EUR''
         6400 0 (hours_cached ''ETH_EUR'')
       = Some (Inr 2, hours_cached ''ETH_EUR'')"
proof -
  let ?e = "usd_quotes (\<lambda>a. if a = ''ETH'' then 2 else 1)"
  have c: "closest_index (three_hours 1000) 6400 = Inr (Some 1)"
    using closest_index_inner[of "three_hours 1000" 6400 1] by (simp add: three_hours_def)
  have z: "(20::rat) \<noteq> 0" by simp
  have q: "query_historical_price ?e ''ETH'' ''EUR'' 6400 0 (hours_cached ''ETH_EUR'')
      = Some (finish_price ?e 20 ''ETH'' ''EUR'' 6400 (hours_cached ''ETH_EUR''))"
    by (rule returned_price[OF no_override_ETH(2) hours_cached_hit(2) three_hours_6400 z])
  have f: "finish_price ?e 20 ''ETH'' ''EUR'' 6400 (hours_cached ''ETH_EUR'')
      = (Inr 2, hours_cached ''ETH_EUR'')"
    by (simp add: finish_price_def adjust_to_cryptocompare_price_incosistencies_def
        usd_quotes_def serving_def A_USD_def fval_div_def)
  from c three_hours_6400 hours_cached_hit(2)[of ?e] q f show ?thesis by simp
qed

section \<open>Results about the cache and the backfill\<close>

lemma backfill_loop_end:
  assumes "backfill_loop e f t now ch ed w = Some y"
  shows "case y of (Inr (ch', ed'), w') \<Rightarrow> now \<le> ed' | (Inl err, w') \<Rightarrow> True"
  using assms
proof (induction e f t now ch ed w y rule: backfill_loop.raw_induct[rotated 1, consumes 1])
  case (1 loop e from_asset to_asset now_ts calculated_history end_date w ea)
  from "1"(2) show ?case
    by (auto split: prod.splits sum.splits if_splits dest: "1"(1))
qed

lemma backfill_loop_end_date:
  "backfill_loop e f t now ch ed w = Some (Inr (ch', ed'), w') \<Longrightarrow> now \<le> ed'"
  using backfill_loop_end[of e f t now ch ed w "(Inr (ch', ed'), w')"] by simp

lemma dict_history_to_data_fields:
  "dict_history_to_data (JDict [(''data'', JList ch), (''start_time'', JInt st), (''end_time'', JInt en)])
     = ebind (dict_history_to_entries ch) (\<lambda>entries. Inr \<lparr>data = entries, start_time = st, end_time = en\<rparr>)"
  by (simp add: dict_history_to_data_def getitem_JDict as_list_def as_int_def)

lemma dict_history_to_data_file:
  "dict_history_to_data (JDict [(''start_time'', JInt st), (''end_time'', JInt en), (''data'', JList ch)])
     = ebind (dict_history_to_entries ch) (\<lambda>entries. Inr \<lparr>data = entries, start_time = st, end_time = en\<rparr>)"
  by (simp add: dict_history_to_data_def getitem_JDict as_list_def as_int_def)

lemma fresh_backfill_roundtrip:
  assumes miss: "got_cached_price (from_asset @ ''_'' @ to_asset) ts w = (Inr False, w0)"
    and ok: "get_historical_data e from_asset to_asset ts hds w = Some (Inr entries, w')"
  shows "\<exists>h doc.
           price_history w' (from_asset @ ''_'' @ to_asset) = Some h
         \<and> data h = entries \<and> start_time h = hds \<and> ts_now e \<le> end_time h
         \<and> price_history_file w' (from_asset @ ''_'' @ to_asset)
             = Some (data_directory e @ ''/price_history_'' @ from_asset @ ''_'' @ to_asset
                       @ ''.json'')
         \<and> files w' (data_directory e @ ''/price_history_'' @ from_asset @ ''_'' @ to_asset
                       @ ''.json'') = Some (Document doc)
         \<and> dict_history_to_data doc = Inr (h\<lparr>end_time := ts_now e\<rparr>)"
proof -
  let ?key = "from_asset @ ''_'' @ to_asset"
  let ?start = "if hds \<le> ts then hds else ts"
  from ok miss obtain ch ed w1 where
    loop: "backfill_loop e from_asset to_asset (ts_now e) [] ?start w0 = Some (Inr (ch, ed), w1)"
    by (auto simp: get_historical_data_def Let_def split: option.splits prod.splits sum.splits)
  from backfill_loop_end_date[OF loop] have ed: "ts_now e \<le> ed" .
  from ok miss loop obtain es where
    es: "dict_history_to_entries ch = Inr es"
    by (cases "dict_history_to_entries ch")
       (auto simp: get_historical_data_def Let_def dict_history_to_data_fields
          split: option.splits prod.splits sum.splits)
  from ok miss loop es have
    r: "entries = es"
       "w' = (write_history_data_in_file ch
               (data_directory e @ ''/price_history_'' @ ?key @ ''.json'') hds (ts_now e) w1)
             \<lparr>price_history_file := (price_history_file w1)
                 (?key \<mapsto> data_directory e @ ''/price_history_'' @ ?key @ ''.json''),
              price_history := (price_history w1)
                 (?key \<mapsto> \<lparr>data = es, start_time = hds, end_time = ed\<rparr>)\<rparr>"
    by (auto simp: get_historical_data_def Let_def dict_history_to_data_fields
          write_history_data_in_file_def
          split: option.splits prod.splits sum.splits)
  show ?thesis
    apply (rule exI[of _ "\<lparr>data = es, start_time = hds, end_time = ed\<rparr>"])
    apply (rule exI[of _ "JDict [(''start_time'', JInt hds), (''end_time'', JInt (ts_now e)),
                                 (''data'', JList ch)]"])
    apply (simp add: r write_history_data_in_file_def dict_history_to_data_file es ed)
    done
qed

lemma backfill_run:
  "get_historical_data (serving two_hop_answer 5000) ''BTC'' ''USD'' 0 0 fresh
     = Some (Inr two_hours, backfilled)"
  apply (simp add: get_historical_data_def got_cached_price_def fresh_def)
  apply (subst backfill_loop.simps)
  apply (simp add: run_query two_hop_answer_def run_backfill backfilled_def Let_def
      full_entry_def two_hours_def ebind_def)
  done

text \<open>
  C9. The backfill of BTC to USD at the clock 5000 keeps in memory a series that ends at
  7200000, the end of the last window, and writes a file that ends at 5000: a new
  instance that loads the file holds the same entries and \<open>start_time\<close> with another
  \<open>end_time\<close>.
\<close>

theorem C9_reload_changes_end_time:
  "get_historical_data (serving two_hop_answer 5000) ''BTC'' ''USD'' 0 0 fresh
     = Some (Inr two_hours, backfilled)
   \<and> price_history backfilled ''BTC_USD''
     = Some \<lparr>data = two_hours, start_time = 0, end_time = 7200000\<rparr>
   \<and> got_cached_price ''BTC_USD'' 0 (backfilled\<lparr>price_history := Map.empty\<rparr>)
     = (Inr True, backfilled\<lparr>price_history :=
          [''BTC_USD'' \<mapsto> \<lparr>data = two_hours, start_time = 0, end_time = 5000\<rparr>]\<rparr>)
   \<and> \<lparr>data = two_hours, start_time = 0, end_time = 7200000\<rparr>
     \<noteq> \<lparr>data = two_hours, start_time = 0, end_time = 5000\<rparr>"
  apply (simp add: backfill_run)
  apply (simp add: backfilled_def run_backfill full_entry_def two_hours_def ebind_def)
  done

end
